theory Spec2Isabelle
  imports Complex_Main "HOL-Library.Char_ord" "HOL-Library.List_Lexorder"
    "HOL-Library.Product_Lexorder"
begin

section \<open>Shared vocabulary\<close>

text \<open>
  The services talk to a remote store (Redis, through ioredis) whose commands can be
  rejected. A rejected command is a value of \<open>remote_failure\<close>; the three constructors
  are the connection, timeout and protocol (error reply) failures. Every clock reading
  (\<^verbatim>\<open>Date.now()\<close>, \<^verbatim>\<open>new Date()\<close>) is an explicit argument \<open>now\<close>, in
  milliseconds.
\<close>

datatype remote_failure = ConnectionFailure | TimeoutFailure | ProtocolFailure

section \<open>RateLimitService (rate-limit.service.ts)\<close>

subsection \<open>Data\<close>

text \<open>
  \<^verbatim>\<open>RateLimitConfig\<close> and \<^verbatim>\<open>RateLimitResult\<close>. Both interfaces have a field
  \<^verbatim>\<open>limit\<close>, and the result shares \<^verbatim>\<open>resetTime\<close> with the entries of the fallback
  map; the fields of the result carry the prefix \<open>r_\<close> where the names collide.
  \<^verbatim>\<open>resetTime\<close> of the result is a \<^verbatim>\<open>Date\<close>; it is kept as its millisecond value.
\<close>

record RateLimitConfig =
  limit :: int
  windowMs :: int
  keyPrefix :: "string option"
  message :: "string option"

record RateLimitResult =
  allowed :: bool
  r_limit :: int
  remaining :: int
  r_resetTime :: int
  totalHits :: int

text \<open>The values of \<^verbatim>\<open>fallbackStorage: Map<string, { count; resetTime }>\<close>.\<close>

record window_data =
  count :: int
  resetTime :: int

text \<open>
  The remote side of the limiter is one sorted set per key, written only by the script of
  \<^verbatim>\<open>checkRedisRateLimit\<close>, which adds the member \<^verbatim>\<open>now\<close> with the score
  \<^verbatim>\<open>now\<close>. A sorted set holds a member once, so the set is the list of its distinct
  scores; \<open>expireAt\<close> is the key's time to live as an absolute time, when it has one.
\<close>

record zset =
  members :: "int list"
  expireAt :: "int option"

record rl_state =
  rl_isRedisAvailable :: bool
  rl_fault :: "remote_failure option"
  rl_redis :: "string \<rightharpoonup> zset"
  fallbackStorage :: "string \<rightharpoonup> window_data"

subsection \<open>The sorted-set commands the script calls\<close>

text \<open>
  A key whose time to live has passed is gone for every command. The clock of the server
  is taken to show the same time as the clock of the service, \<open>now\<close>.
\<close>

definition live_zset :: "(string \<rightharpoonup> zset) \<Rightarrow> string \<Rightarrow> int \<Rightarrow> zset option" where
  "live_zset db key now =
     (case db key of
        None \<Rightarrow> None
      | Some z \<Rightarrow> (case expireAt z of
                    None \<Rightarrow> Some z
                  | Some e \<Rightarrow> if e < now then None else Some z))"

text \<open>\<^verbatim>\<open>ZREMRANGEBYSCORE key lo hi\<close>: drops the members with \<open>lo \<le> score \<le> hi\<close>.\<close>

definition zremrangebyscore :: "int \<Rightarrow> int \<Rightarrow> int list \<Rightarrow> int list" where
  "zremrangebyscore lo hi ms = filter (\<lambda>s. \<not> (lo \<le> s \<and> s \<le> hi)) ms"

text \<open>\<^verbatim>\<open>ZCARD\<close>.\<close>

definition zcard :: "int list \<Rightarrow> int" where
  "zcard ms = int (length ms)"

text \<open>\<^verbatim>\<open>ZRANGE key 0 0 WITHSCORES\<close>, second element: the lowest score, nil on an empty set.\<close>

definition zoldest :: "int list \<Rightarrow> int option" where
  "zoldest ms = (case ms of [] \<Rightarrow> None | x # xs \<Rightarrow> Some (fold min xs x))"

text \<open>\<^verbatim>\<open>ZADD key now now\<close>: a member already in the set is not added a second time.\<close>

definition zadd :: "int \<Rightarrow> int list \<Rightarrow> int list" where
  "zadd now ms = (if now \<in> set ms then ms else ms @ [now])"

text \<open>Writing a set back: Redis removes a key whose sorted set became empty.\<close>

definition store_zset :: "(string \<rightharpoonup> zset) \<Rightarrow> string \<Rightarrow> int list \<Rightarrow> int option \<Rightarrow> (string \<rightharpoonup> zset)" where
  "store_zset db key ms ex =
     (if ms = [] then db(key := None) else db(key \<mapsto> \<lparr>members = ms, expireAt = ex\<rparr>))"

subsection \<open>The Lua script of checkRedisRateLimit\<close>

text \<open>
  The script runs atomically on the server. Its reply is the five-element table; the
  second component is the store after the script. \<^verbatim>\<open>math.ceil(window_ms / 1000)\<close> is
  \<open>- ((- window_ms) div 1000)\<close> on integers, and \<^verbatim>\<open>EXPIRE\<close> with a time that is not
  positive deletes the key.
\<close>

definition rate_limit_script ::
  "(string \<rightharpoonup> zset) \<Rightarrow> string \<Rightarrow> int \<Rightarrow> int \<Rightarrow> int \<Rightarrow> int
     \<Rightarrow> (int \<times> int \<times> int \<times> int \<times> int) \<times> (string \<rightharpoonup> zset)" where
  "rate_limit_script db key window_start now lmt window_ms =
     (let z0 = live_zset db key now;
          ms0 = (case z0 of None \<Rightarrow> [] | Some z \<Rightarrow> members z);
          ex0 = (case z0 of None \<Rightarrow> None | Some z \<Rightarrow> expireAt z);
          ms1 = zremrangebyscore 0 window_start ms0;
          current_requests = zcard ms1
      in if current_requests \<ge> lmt then
           (let reset_time = (case zoldest ms1 of
                                Some oldest_entry \<Rightarrow> oldest_entry + window_ms
                              | None \<Rightarrow> now + window_ms)
            in ((0, lmt, 0, reset_time, current_requests), store_zset db key ms1 ex0))
         else
           (let ms2 = zadd now ms1;
                secs = - ((- window_ms) div 1000);
                db' = (if secs \<le> 0 then db(key := None)
                       else db(key \<mapsto> \<lparr>members = ms2, expireAt = Some (now + secs * 1000)\<rparr>));
                remaining = lmt - current_requests - 1;
                reset_time = now + window_ms
            in ((1, lmt, remaining, reset_time, current_requests + 1), db')))"

subsection \<open>The service\<close>

text \<open>
  A promise is modelled by how it settles: \<open>Inl\<close> the rejection, \<open>Inr\<close> the value, together
  with the state the call leaves behind.
\<close>

definition checkRedisRateLimit ::
  "rl_state \<Rightarrow> string \<Rightarrow> int \<Rightarrow> int \<Rightarrow> int \<Rightarrow> (remote_failure + RateLimitResult) \<times> rl_state" where
  "checkRedisRateLimit st key lmt window_ms now =
     (let windowStart = now - window_ms
      in case rl_fault st of
           Some f \<Rightarrow> (Inl f, st)
         | None \<Rightarrow>
             (case rate_limit_script (rl_redis st) key windowStart now lmt window_ms of
                ((r0, r1, r2, r3, r4), db') \<Rightarrow>
                  (Inr \<lparr>allowed = (r0 = 1), r_limit = r1, remaining = r2,
                        r_resetTime = r3, totalHits = r4\<rparr>,
                   st\<lparr>rl_redis := db'\<rparr>)))"

definition checkFallbackRateLimit ::
  "rl_state \<Rightarrow> string \<Rightarrow> int \<Rightarrow> int \<Rightarrow> int \<Rightarrow> RateLimitResult \<times> rl_state" where
  "checkFallbackRateLimit st key lmt window_ms now =
     (case fallbackStorage st key of
        None \<Rightarrow>
          (\<lparr>allowed = True, r_limit = lmt, remaining = lmt - 1,
            r_resetTime = now + window_ms, totalHits = 1\<rparr>,
           st\<lparr>fallbackStorage := (fallbackStorage st)(key \<mapsto> \<lparr>count = 1, resetTime = now + window_ms\<rparr>)\<rparr>)
      | Some data \<Rightarrow>
          if resetTime data \<le> now then
            (\<lparr>allowed = True, r_limit = lmt, remaining = lmt - 1,
              r_resetTime = now + window_ms, totalHits = 1\<rparr>,
             st\<lparr>fallbackStorage := (fallbackStorage st)(key \<mapsto> \<lparr>count = 1, resetTime = now + window_ms\<rparr>)\<rparr>)
          else if count data \<ge> lmt then
            (\<lparr>allowed = False, r_limit = lmt, remaining = 0,
              r_resetTime = resetTime data, totalHits = count data\<rparr>,
             st)
          else
            (\<lparr>allowed = True, r_limit = lmt, remaining = lmt - (count data + 1),
              r_resetTime = resetTime data, totalHits = count data + 1\<rparr>,
             st\<lparr>fallbackStorage := (fallbackStorage st)(key \<mapsto> data\<lparr>count := count data + 1\<rparr>)\<rparr>))"

text \<open>\<^verbatim>\<open>`${keyPrefix}:${identifier}`\<close>, with \<^verbatim>\<open>keyPrefix = 'rl'\<close> when the field is undefined.\<close>

definition rate_key :: "RateLimitConfig \<Rightarrow> string \<Rightarrow> string" where
  "rate_key config identifier =
     (case keyPrefix config of None \<Rightarrow> ''rl'' | Some p \<Rightarrow> p) @ '':'' @ identifier"

text \<open>
  \<^verbatim>\<open>checkRateLimit\<close>. The \<^verbatim>\<open>try\<close> block returns the promise of
  \<^verbatim>\<open>checkRedisRateLimit\<close> without awaiting it (\<^verbatim>\<open>return this.checkRedisRateLimit(...)\<close>),
  so the block itself ends normally with that promise as its value, and the promise
  settles after control has left the block. \<open>body\<close> is the outcome of the block: \<open>Inl\<close> an
  exception thrown while the block runs, which the \<^verbatim>\<open>catch\<close> clause turns into the
  fail-open result, \<open>Inr\<close> the returned promise. Neither branch of the block throws while
  it runs: an \<^verbatim>\<open>async\<close> method reports every failure through its promise, and
  \<^verbatim>\<open>checkFallbackRateLimit\<close> reads and writes a \<^verbatim>\<open>Map\<close>.
\<close>

definition checkRateLimit ::
  "rl_state \<Rightarrow> string \<Rightarrow> RateLimitConfig \<Rightarrow> int \<Rightarrow> (remote_failure + RateLimitResult) \<times> rl_state" where
  "checkRateLimit st identifier config now =
     (let key = rate_key config identifier;
          body = (if rl_isRedisAvailable st
                  then Inr (checkRedisRateLimit st key (limit config) (windowMs config) now)
                  else Inr (case checkFallbackRateLimit st key (limit config) (windowMs config) now of
                              (r, st') \<Rightarrow> (Inr r, st')))
      in case body of
           Inl (e :: remote_failure) \<Rightarrow>
             (Inr \<lparr>allowed = True, r_limit = limit config, remaining = limit config - 1,
                   r_resetTime = now + windowMs config, totalHits = 1\<rparr>,
              st)
         | Inr settled \<Rightarrow> settled)"

text \<open>
  Checks issued one after another for one identifier, each at its own clock reading: the
  list of the settled results, in order, and the state after the last one.
\<close>

fun run_checks ::
  "rl_state \<Rightarrow> string \<Rightarrow> RateLimitConfig \<Rightarrow> int list
     \<Rightarrow> (remote_failure + RateLimitResult) list \<times> rl_state" where
  "run_checks st identifier config [] = ([], st)"
| "run_checks st identifier config (now # nows) =
     (case checkRateLimit st identifier config now of
        (r, st') \<Rightarrow> (case run_checks st' identifier config nows of
                      (rs, st'') \<Rightarrow> (r # rs, st'')))"

subsection \<open>The sliding window in the words of the specification\<close>

text \<open>
  What the specification asks of a run of checks inside one window: \<open>n\<close> events are
  in the window and \<open>oldest\<close> is the time of the first of them. A check at time \<open>t\<close> is
  admitted while fewer than \<open>L\<close> events are in the window, leaves \<open>L - n - 1\<close> and adds
  its own event; otherwise it is denied with nothing remaining and the reset time
  \<open>oldest + w\<close>. The decision, \<open>remaining\<close> and the reset time of a denial are in the
  words of the specification, which is silent on the reset time of an admitted check and
  on \<open>totalHits\<close>; those two are the telemetry of the script. The definition is compared
  with the script below.
\<close>

fun sliding_window_spec :: "int \<Rightarrow> int \<Rightarrow> int \<Rightarrow> nat \<Rightarrow> int list \<Rightarrow> RateLimitResult list" where
  "sliding_window_spec L w oldest n [] = []"
| "sliding_window_spec L w oldest n (t # ts) =
     (if int n < L
      then \<lparr>allowed = True, r_limit = L, remaining = L - int n - 1,
            r_resetTime = t + w, totalHits = int n + 1\<rparr> # sliding_window_spec L w oldest (n + 1) ts
      else \<lparr>allowed = False, r_limit = L, remaining = 0,
            r_resetTime = oldest + w, totalHits = int n\<rparr> # sliding_window_spec L w oldest n ts)"

section \<open>CacheService (cache.service.ts)\<close>

subsection \<open>Data\<close>

text \<open>\<^verbatim>\<open>CacheOptions\<close>: every field is optional.\<close>

record CacheOptions =
  ttl :: "int option"
  namespace :: "string option"
  compress :: "bool option"

text \<open>\<^verbatim>\<open>CacheStats\<close>.\<close>

record CacheStats =
  hits :: nat
  misses :: nat
  sets :: nat
  deletes :: nat
  errors :: nat
  totalKeys :: nat
  memoryUsage :: string

text \<open>
  The values of \<^verbatim>\<open>fallbackCache: Map<string, { value; expiresAt }>\<close>; the field
  \<^verbatim>\<open>value\<close> is \<open>item_value\<close> here.
\<close>

record 'v fallback_item =
  item_value :: 'v
  expiresAt :: int

text \<open>
  The remote side of the cache: every key the service writes is a string with a time to
  live (\<^verbatim>\<open>SETEX\<close>), kept as the absolute time at which it ends.
\<close>

record redis_string =
  rs_value :: string
  rs_expireAt :: int

text \<open>
  The service is generic in the cached type \<^verbatim>\<open>T\<close>. \<^verbatim>\<open>JSON.stringify\<close> and
  \<^verbatim>\<open>JSON.parse\<close> are the two functions of the platform it calls on the values; they
  are the parameter \<open>C\<close> of every operation, \<open>None\<close> standing for a thrown exception.
\<close>

record 'v codec =
  stringify :: "'v \<Rightarrow> string option"
  parse :: "string \<Rightarrow> 'v option"

record 'v cache_state =
  isRedisAvailable :: bool
  redis_fault :: "remote_failure option"
  redis :: "string \<rightharpoonup> redis_string"
  fallbackCache :: "string \<rightharpoonup> 'v fallback_item"
  stats :: CacheStats

text \<open>
  What a rejected operation of the service carries: the error of the remote command, or
  one of the two errors the service raises itself.
\<close>

datatype cache_error = RemoteError remote_failure | SerializationFailed | DeserializationFailed

definition DEFAULT_TTL :: int where
  "DEFAULT_TTL = 300"

definition KEY_PREFIX :: string where
  "KEY_PREFIX = ''taskflow:''"

subsection \<open>The string commands the service calls\<close>

text \<open>
  Each command takes the fault of the connection: with \<open>Some f\<close> the command is rejected
  with \<open>f\<close>. A key is gone once the clock has passed its time to live.
\<close>

definition live_string :: "(string \<rightharpoonup> redis_string) \<Rightarrow> string \<Rightarrow> int \<Rightarrow> string option" where
  "live_string db key now =
     (case db key of
        None \<Rightarrow> None
      | Some e \<Rightarrow> if rs_expireAt e < now then None else Some (rs_value e))"

text \<open>\<^verbatim>\<open>SETEX key seconds value\<close>; a time to live that is not positive is an error reply.\<close>

definition r_setex ::
  "remote_failure option \<Rightarrow> (string \<rightharpoonup> redis_string) \<Rightarrow> string \<Rightarrow> int \<Rightarrow> string \<Rightarrow> int
     \<Rightarrow> remote_failure + (string \<rightharpoonup> redis_string)" where
  "r_setex fault db key seconds v now =
     (case fault of
        Some f \<Rightarrow> Inl f
      | None \<Rightarrow> if seconds \<le> 0 then Inl ProtocolFailure
                else Inr (db(key \<mapsto> \<lparr>rs_value = v, rs_expireAt = now + seconds * 1000\<rparr>)))"

definition r_get ::
  "remote_failure option \<Rightarrow> (string \<rightharpoonup> redis_string) \<Rightarrow> string \<Rightarrow> int
     \<Rightarrow> remote_failure + string option" where
  "r_get fault db key now =
     (case fault of Some f \<Rightarrow> Inl f | None \<Rightarrow> Inr (live_string db key now))"

text \<open>\<^verbatim>\<open>DEL key\<close>: the number of keys removed.\<close>

definition r_del ::
  "remote_failure option \<Rightarrow> (string \<rightharpoonup> redis_string) \<Rightarrow> string \<Rightarrow> int
     \<Rightarrow> remote_failure + (int \<times> (string \<rightharpoonup> redis_string))" where
  "r_del fault db key now =
     (case fault of
        Some f \<Rightarrow> Inl f
      | None \<Rightarrow> Inr (if live_string db key now = None then 0 else 1, db(key := None)))"

definition r_exists ::
  "remote_failure option \<Rightarrow> (string \<rightharpoonup> redis_string) \<Rightarrow> string \<Rightarrow> int
     \<Rightarrow> remote_failure + int" where
  "r_exists fault db key now =
     (case fault of
        Some f \<Rightarrow> Inl f
      | None \<Rightarrow> Inr (if live_string db key now = None then 0 else 1))"

text \<open>\<^verbatim>\<open>MGET key ...\<close>; without a key the command is an error reply.\<close>

definition r_mget ::
  "remote_failure option \<Rightarrow> (string \<rightharpoonup> redis_string) \<Rightarrow> string list \<Rightarrow> int
     \<Rightarrow> remote_failure + string option list" where
  "r_mget fault db keys now =
     (case fault of
        Some f \<Rightarrow> Inl f
      | None \<Rightarrow> if keys = [] then Inl ProtocolFailure
                else Inr (map (\<lambda>k. live_string db k now) keys))"

text \<open>
  A pipeline of \<^verbatim>\<open>SETEX\<close> commands. \<^verbatim>\<open>pipeline.exec()\<close> resolves with one
  \<^verbatim>\<open>[error, reply]\<close> pair per command: a command that fails leaves its error in the
  pair and writes nothing, and the promise of \<^verbatim>\<open>exec\<close> itself is fulfilled.
\<close>

definition r_pipeline_setex ::
  "remote_failure option \<Rightarrow> (string \<rightharpoonup> redis_string) \<Rightarrow> (string \<times> string) list \<Rightarrow> int \<Rightarrow> int
     \<Rightarrow> (string \<rightharpoonup> redis_string)" where
  "r_pipeline_setex fault db cmds seconds now =
     fold (\<lambda>(k, v) d. case r_setex fault d k seconds v now of Inl f \<Rightarrow> d | Inr d' \<Rightarrow> d') cmds db"

subsection \<open>Helpers of the service\<close>

text \<open>\<^verbatim>\<open>namespace || 'default'\<close>: the empty string is falsy as well.\<close>

definition buildKey :: "string \<Rightarrow> string option \<Rightarrow> string" where
  "buildKey key ns_opt =
     (let ns = (case ns_opt of None \<Rightarrow> ''default'' | Some n \<Rightarrow> if n = [] then ''default'' else n)
      in KEY_PREFIX @ ns @ '':'' @ key)"

definition serializeValue :: "'v codec \<Rightarrow> 'v \<Rightarrow> bool \<Rightarrow> cache_error + string" where
  "serializeValue C v compr =
     (case stringify C v of
        None \<Rightarrow> Inl SerializationFailed
      | Some serialized \<Rightarrow>
          if compr \<and> length serialized > 1024 then Inr serialized else Inr serialized)"

definition deserializeValue :: "'v codec \<Rightarrow> string \<Rightarrow> cache_error + 'v" where
  "deserializeValue C s =
     (case parse C s of None \<Rightarrow> Inl DeserializationFailed | Some v \<Rightarrow> Inr v)"

text \<open>\<^verbatim>\<open>deepClone\<close>: the original object when cloning fails.\<close>

definition deepClone :: "'v codec \<Rightarrow> 'v \<Rightarrow> 'v" where
  "deepClone C obj =
     (case stringify C obj of
        None \<Rightarrow> obj
      | Some s \<Rightarrow> (case parse C s of None \<Rightarrow> obj | Some v \<Rightarrow> v))"

text \<open>The counters: \<^verbatim>\<open>this.stats.errors++\<close> and its siblings.\<close>

definition count_error :: "'v cache_state \<Rightarrow> 'v cache_state" where
  "count_error st = st\<lparr>stats := (stats st)\<lparr>errors := errors (stats st) + 1\<rparr>\<rparr>"

definition count_hit :: "'v cache_state \<Rightarrow> 'v cache_state" where
  "count_hit st = st\<lparr>stats := (stats st)\<lparr>hits := hits (stats st) + 1\<rparr>\<rparr>"

definition count_miss :: "'v cache_state \<Rightarrow> 'v cache_state" where
  "count_miss st = st\<lparr>stats := (stats st)\<lparr>misses := misses (stats st) + 1\<rparr>\<rparr>"

definition count_sets :: "nat \<Rightarrow> 'v cache_state \<Rightarrow> 'v cache_state" where
  "count_sets n st = st\<lparr>stats := (stats st)\<lparr>sets := sets (stats st) + n\<rparr>\<rparr>"

definition count_delete :: "'v cache_state \<Rightarrow> 'v cache_state" where
  "count_delete st = st\<lparr>stats := (stats st)\<lparr>deletes := deletes (stats st) + 1\<rparr>\<rparr>"

subsection \<open>The operations\<close>

text \<open>
  Each operation returns what its promise settles to and the state of the service after
  the call. \<^verbatim>\<open>set\<close> and \<^verbatim>\<open>mset\<close> end their \<^verbatim>\<open>catch\<close> clause with
  \<^verbatim>\<open>throw error\<close>, so they can reject (\<open>Inl\<close>); \<^verbatim>\<open>get\<close>, \<^verbatim>\<open>delete\<close>,
  \<^verbatim>\<open>has\<close> and \<^verbatim>\<open>mget\<close> return a value from their \<^verbatim>\<open>catch\<close> clause. The
  result \<open>None\<close> of a read is the \<^verbatim>\<open>null\<close> of the miss and error paths, \<open>Some v\<close> the
  deserialised value of the hit path.
\<close>

definition set_cache ::
  "'v codec \<Rightarrow> 'v cache_state \<Rightarrow> string \<Rightarrow> 'v \<Rightarrow> CacheOptions \<Rightarrow> int
     \<Rightarrow> (cache_error + unit) \<times> 'v cache_state" where
  "set_cache C st key v opts now =
     (let seconds = (case ttl opts of None \<Rightarrow> DEFAULT_TTL | Some t \<Rightarrow> t);
          compr = (case compress opts of None \<Rightarrow> False | Some c \<Rightarrow> c);
          cacheKey = buildKey key (namespace opts)
      in case serializeValue C v compr of
           Inl e \<Rightarrow> (Inl e, count_error st)
         | Inr serializedValue \<Rightarrow>
             if isRedisAvailable st then
               (case r_setex (redis_fault st) (redis st) cacheKey seconds serializedValue now of
                  Inl f \<Rightarrow> (Inl (RemoteError f), count_error st)
                | Inr db' \<Rightarrow> (Inr (), count_sets 1 (st\<lparr>redis := db'\<rparr>)))
             else
               (Inr (),
                count_sets 1
                  (st\<lparr>fallbackCache := (fallbackCache st)
                        (cacheKey \<mapsto> \<lparr>item_value = deepClone C v,
                                      expiresAt = now + seconds * 1000\<rparr>)\<rparr>)))"

definition get ::
  "'v codec \<Rightarrow> 'v cache_state \<Rightarrow> string \<Rightarrow> CacheOptions \<Rightarrow> int \<Rightarrow> 'v option \<times> 'v cache_state" where
  "get C st key opts now =
     (let cacheKey = buildKey key (namespace opts);
          looked_up =
            (if isRedisAvailable st then
               (case r_get (redis_fault st) (redis st) cacheKey now of
                  Inl f \<Rightarrow> Inl (RemoteError f, st)
                | Inr v \<Rightarrow> Inr (v, st))
             else
               (case fallbackCache st cacheKey of
                  None \<Rightarrow> Inr (None, st)
                | Some item \<Rightarrow>
                    if expiresAt item < now
                    then Inr (None, st\<lparr>fallbackCache := (fallbackCache st)(cacheKey := None)\<rparr>)
                    else (case serializeValue C (item_value item) False of
                            Inl e \<Rightarrow> Inl (e, st)
                          | Inr s \<Rightarrow> Inr (Some s, st))))
      in case looked_up of
           Inl (e, st1) \<Rightarrow> (None, count_error st1)
         | Inr (None, st1) \<Rightarrow> (None, count_miss st1)
         | Inr (Some s, st1) \<Rightarrow>
             (case deserializeValue C s of
                Inl e \<Rightarrow> (None, count_error (count_hit st1))
              | Inr v \<Rightarrow> (Some v, count_hit st1)))"

definition delete ::
  "'v cache_state \<Rightarrow> string \<Rightarrow> CacheOptions \<Rightarrow> int \<Rightarrow> bool \<times> 'v cache_state" where
  "delete st key opts now =
     (let cacheKey = buildKey key (namespace opts)
      in if isRedisAvailable st then
           (case r_del (redis_fault st) (redis st) cacheKey now of
              Inl f \<Rightarrow> (False, count_error st)
            | Inr (result, db') \<Rightarrow>
                (let deleted = (result > 0); st1 = st\<lparr>redis := db'\<rparr>
                 in (deleted, if deleted then count_delete st1 else st1)))
         else
           (let deleted = (fallbackCache st cacheKey \<noteq> None);
                st1 = st\<lparr>fallbackCache := (fallbackCache st)(cacheKey := None)\<rparr>
            in (deleted, if deleted then count_delete st1 else st1)))"

definition has ::
  "'v cache_state \<Rightarrow> string \<Rightarrow> CacheOptions \<Rightarrow> int \<Rightarrow> bool \<times> 'v cache_state" where
  "has st key opts now =
     (let cacheKey = buildKey key (namespace opts)
      in if isRedisAvailable st then
           (case r_exists (redis_fault st) (redis st) cacheKey now of
              Inl f \<Rightarrow> (False, count_error st)
            | Inr exists \<Rightarrow> (exists = 1, st))
         else
           (case fallbackCache st cacheKey of
              None \<Rightarrow> (False, st)
            | Some item \<Rightarrow>
                if expiresAt item < now
                then (False, st\<lparr>fallbackCache := (fallbackCache st)(cacheKey := None)\<rparr>)
                else (True, st)))"

text \<open>
  \<^verbatim>\<open>values.map(value => value ? this.deserializeValue(value) : null)\<close>: \<^verbatim>\<open>null\<close> and
  the empty string are falsy; the first value that does not parse throws.
\<close>

fun deserialize_all :: "'v codec \<Rightarrow> string option list \<Rightarrow> cache_error + 'v option list" where
  "deserialize_all C [] = Inr []"
| "deserialize_all C (None # values) =
     (case deserialize_all C values of Inl e \<Rightarrow> Inl e | Inr vs \<Rightarrow> Inr (None # vs))"
| "deserialize_all C (Some s # values) =
     (if s = [] then
        (case deserialize_all C values of Inl e \<Rightarrow> Inl e | Inr vs \<Rightarrow> Inr (None # vs))
      else
        (case deserializeValue C s of
           Inl e \<Rightarrow> Inl e
         | Inr v \<Rightarrow> (case deserialize_all C values of Inl e \<Rightarrow> Inl e | Inr vs \<Rightarrow> Inr (Some v # vs))))"

definition mget ::
  "'v codec \<Rightarrow> 'v cache_state \<Rightarrow> string list \<Rightarrow> CacheOptions \<Rightarrow> int
     \<Rightarrow> 'v option list \<times> 'v cache_state" where
  "mget C st keys opts now =
     (let cacheKeys = map (\<lambda>key. buildKey key (namespace opts)) keys
      in if isRedisAvailable st then
           (case r_mget (redis_fault st) (redis st) cacheKeys now of
              Inl f \<Rightarrow> (map (\<lambda>k. None) keys, count_error st)
            | Inr values \<Rightarrow>
                (case deserialize_all C values of
                   Inl e \<Rightarrow> (map (\<lambda>k. None) keys, count_error st)
                 | Inr vs \<Rightarrow> (vs, st)))
         else
           (map (\<lambda>cacheKey.
                   case fallbackCache st cacheKey of
                     None \<Rightarrow> None
                   | Some item \<Rightarrow> if expiresAt item \<ge> now then Some (item_value item) else None)
                cacheKeys,
            st))"

text \<open>
  The loop of \<^verbatim>\<open>mset\<close> over \<^verbatim>\<open>Object.entries(keyValuePairs)\<close> in its remote branch:
  the commands queued on the pipeline, or the serialisation error that ends the loop
  before anything is sent.
\<close>

fun serialize_all ::
  "'v codec \<Rightarrow> string option \<Rightarrow> (string \<times> 'v) list \<Rightarrow> cache_error + (string \<times> string) list" where
  "serialize_all C ns [] = Inr []"
| "serialize_all C ns ((key, v) # rest) =
     (case serializeValue C v False of
        Inl e \<Rightarrow> Inl e
      | Inr serializedValue \<Rightarrow>
          (case serialize_all C ns rest of
             Inl e \<Rightarrow> Inl e
           | Inr cmds \<Rightarrow> Inr ((buildKey key ns, serializedValue) # cmds)))"

definition mset ::
  "'v codec \<Rightarrow> 'v cache_state \<Rightarrow> (string \<times> 'v) list \<Rightarrow> CacheOptions \<Rightarrow> int
     \<Rightarrow> (cache_error + unit) \<times> 'v cache_state" where
  "mset C st keyValuePairs opts now =
     (let seconds = (case ttl opts of None \<Rightarrow> DEFAULT_TTL | Some t \<Rightarrow> t)
      in if isRedisAvailable st then
           (case serialize_all C (namespace opts) keyValuePairs of
              Inl e \<Rightarrow> (Inl e, count_error st)
            | Inr cmds \<Rightarrow>
                (Inr (),
                 count_sets (length keyValuePairs)
                   (st\<lparr>redis := r_pipeline_setex (redis_fault st) (redis st) cmds seconds now\<rparr>)))
         else
           (Inr (),
            count_sets (length keyValuePairs)
              (st\<lparr>fallbackCache :=
                    fold (\<lambda>(key, v) m.
                            m(buildKey key (namespace opts) \<mapsto>
                                \<lparr>item_value = deepClone C v, expiresAt = now + seconds * 1000\<rparr>))
                         keyValuePairs (fallbackCache st)\<rparr>)))"

text \<open>
  The serving backend of a read is the remote store when the service believes it
  available and the fallback map otherwise. \<open>past_expiry\<close> says that this backend holds
  an entry under the key whose expiry time lies before \<open>now\<close>.
\<close>

definition past_expiry :: "'v cache_state \<Rightarrow> string \<Rightarrow> int \<Rightarrow> bool" where
  "past_expiry st cacheKey now =
     (if isRedisAvailable st
      then (case redis st cacheKey of None \<Rightarrow> False | Some e \<Rightarrow> rs_expireAt e < now)
      else (case fallbackCache st cacheKey of None \<Rightarrow> False | Some item \<Rightarrow> expiresAt item < now))"

subsection \<open>A concrete value type\<close>

text \<open>
  For closed evaluations the cached type is instantiated with three kinds of JavaScript
  values and the platform's behaviour on them: \<^verbatim>\<open>JSON.stringify\<close> gives
  \<^verbatim>\<open>"null"\<close> for \<^verbatim>\<open>null\<close> and for \<^verbatim>\<open>NaN\<close>, \<^verbatim>\<open>"true"\<close> and \<^verbatim>\<open>"false"\<close>
  for the booleans, and \<^verbatim>\<open>JSON.parse\<close> reads the three literals back. No other text
  reaches \<open>json_parse\<close> in the evaluations below; it is treated as unparsable.
\<close>

datatype jsval = VNull | VBool bool | VNaN

definition json_stringify :: "jsval \<Rightarrow> string option" where
  "json_stringify v =
     Some (case v of
             VNull \<Rightarrow> ''null''
           | VBool b \<Rightarrow> (if b then ''true'' else ''false'')
           | VNaN \<Rightarrow> ''null'')"

definition json_parse :: "string \<Rightarrow> jsval option" where
  "json_parse s =
     (if s = ''null'' then Some VNull
      else if s = ''true'' then Some (VBool True)
      else if s = ''false'' then Some (VBool False)
      else None)"

definition JSON :: "jsval codec" where
  "JSON = \<lparr>stringify = json_stringify, parse = json_parse\<rparr>"

text \<open>The counters of a fresh service.\<close>

definition fresh_stats :: CacheStats where
  "fresh_stats = \<lparr>hits = 0, misses = 0, sets = 0, deletes = 0, errors = 0,
                   totalKeys = 0, memoryUsage = ''0KB''\<rparr>"

section \<open>Jobs and the task table\<close>

text \<open>
  Modelled from the spec: the entity class \<^verbatim>\<open>Task\<close>
  (\<^verbatim>\<open>modules/tasks/entities/task.entity.ts\<close>) and the enums \<^verbatim>\<open>TaskStatus\<close> and
  \<^verbatim>\<open>TaskPriority\<close> are not among the sources; the spec leaves entity persistence to an
  external collaborator. The record has the columns that the DTOs, the scheduler and the
  worker read and write; dates are millisecond values, nullable columns are options.
\<close>

datatype TaskStatus = PENDING | IN_PROGRESS | COMPLETED

datatype TaskPriority = LOW | MEDIUM | HIGH

record Task =
  task_id :: string
  title :: string
  description :: "string option"
  status :: TaskStatus
  priority :: TaskPriority
  dueDate :: "int option"
  userId :: string
  createdAt :: int
  updatedAt :: int

text \<open>
  \<^verbatim>\<open>Partial<Task>\<close> as it arrives in \<^verbatim>\<open>updateData\<close>: \<open>None\<close> is a column the
  object does not mention. The primary key and \<^verbatim>\<open>createdAt\<close> are not among the
  columns a payload rewrites, and \<^verbatim>\<open>updatedAt\<close> is overwritten by the handler.
\<close>

record task_update =
  upd_title :: "string option"
  upd_description :: "string option option"
  upd_status :: "TaskStatus option"
  upd_priority :: "TaskPriority option"
  upd_dueDate :: "int option option"
  upd_userId :: "string option"

text \<open>
  \<^verbatim>\<open>job.data\<close>: the fields the scheduler writes and the handlers destructure; \<open>None\<close>
  is an absent field. The field \<^verbatim>\<open>userId\<close> of the payload is \<open>data_userId\<close>.
\<close>

record job_data =
  batchNumber :: "nat option"
  totalBatches :: "nat option"
  batchSize :: "nat option"
  timestamp :: "int option"
  taskIds :: "string list option"
  updateData :: "task_update option"
  data_userId :: "string option"

datatype backoff_type = exponential | fixed

text \<open>The options of \<^verbatim>\<open>taskQueue.add(name, data, opts)\<close>.\<close>

record job_opts =
  attempts :: nat
  backoff :: "backoff_type \<times> nat"
  removeOnComplete :: nat
  removeOnFail :: nat
  delay :: nat

text \<open>What \<^verbatim>\<open>taskQueue.add\<close> puts on the queue.\<close>

record queued_job =
  q_name :: string
  q_data :: job_data
  q_opts :: job_opts

text \<open>The \<^verbatim>\<open>Job\<close> a worker receives.\<close>

record Job =
  job_id :: string
  name :: string
  data :: job_data
  job_opts :: job_opts
  attemptsMade :: nat

section \<open>OverdueTasksService (overdue-tasks.service.ts)\<close>

record scheduler_state =
  isProcessing :: bool
  taskQueue :: "queued_job list"

definition OverdueTasksService_BATCH_SIZE :: nat where
  "OverdueTasksService_BATCH_SIZE = 100"

text \<open>The payload and the options of batch number \<open>batch + 1\<close>.\<close>

definition batch_job :: "(nat \<Rightarrow> int) \<Rightarrow> nat \<Rightarrow> nat \<Rightarrow> queued_job" where
  "batch_job clock batchCount batch =
     \<lparr>q_name = ''process-overdue-tasks'',
      q_data = \<lparr>batchNumber = Some (batch + 1),
                totalBatches = Some batchCount,
                batchSize = Some OverdueTasksService_BATCH_SIZE,
                timestamp = Some (clock batch),
                taskIds = None, updateData = None, data_userId = None\<rparr>,
      q_opts = \<lparr>attempts = 3, backoff = (exponential, 5000),
                removeOnComplete = 10, removeOnFail = 5,
                delay = batch * 1000\<rparr>\<rparr>"

text \<open>
  The \<^verbatim>\<open>for\<close> loop of \<^verbatim>\<open>handleOverdueTasksScheduled\<close> over the batch indices still
  to come. \<open>add_fails batch\<close> says that \<^verbatim>\<open>taskQueue.add\<close> rejects for that batch; the
  inner \<^verbatim>\<open>catch\<close> logs and the loop goes on. The accumulator is the queue and
  \<^verbatim>\<open>totalQueued\<close>.
\<close>

fun enqueue_batches ::
  "(nat \<Rightarrow> bool) \<Rightarrow> (nat \<Rightarrow> int) \<Rightarrow> nat \<Rightarrow> nat list \<Rightarrow> queued_job list \<times> nat
     \<Rightarrow> queued_job list \<times> nat" where
  "enqueue_batches add_fails clock batchCount [] acc = acc"
| "enqueue_batches add_fails clock batchCount (batch # rest) (queue, totalQueued) =
     (if add_fails batch
      then enqueue_batches add_fails clock batchCount rest (queue, totalQueued)
      else enqueue_batches add_fails clock batchCount rest
             (queue @ [batch_job clock batchCount batch], totalQueued + 1))"

text \<open>
  \<^verbatim>\<open>handleOverdueTasksScheduled\<close>. \<open>count_result\<close> is what
  \<^verbatim>\<open>getOverdueTasksCount()\<close> settles to, \<open>Inl\<close> its rejection. The \<^verbatim>\<open>finally\<close>
  clause clears the guard on every path that set it.
\<close>

definition handleOverdueTasksScheduled ::
  "scheduler_state \<Rightarrow> (string + nat) \<Rightarrow> (nat \<Rightarrow> bool) \<Rightarrow> (nat \<Rightarrow> int) \<Rightarrow> scheduler_state" where
  "handleOverdueTasksScheduled st count_result add_fails clock =
     (if isProcessing st then st
      else
        (case count_result of
           Inl e \<Rightarrow> st\<lparr>isProcessing := False\<rparr>
         | Inr overdueCount \<Rightarrow>
             if overdueCount = 0 then st\<lparr>isProcessing := False\<rparr>
             else
               (let batchCount = nat \<lceil>real overdueCount / real OverdueTasksService_BATCH_SIZE\<rceil>;
                    (queue, totalQueued) =
                       enqueue_batches add_fails clock batchCount [0..<batchCount] (taskQueue st, 0)
                in st\<lparr>taskQueue := queue, isProcessing := False\<rparr>)))"

section \<open>TaskProcessorService (task-processor.service.ts)\<close>

subsection \<open>Data\<close>

text \<open>\<^verbatim>\<open>JobMetrics\<close>; its field \<^verbatim>\<open>errors\<close> is \<open>m_errors\<close> here.\<close>

record JobMetrics =
  startTime :: int
  endTime :: "int option"
  duration :: "int option"
  tasksProcessed :: nat
  tasksSuccess :: nat
  tasksFailed :: nat
  m_errors :: "string list"

text \<open>
  The object built by \<^verbatim>\<open>createJobResult\<close>. The fields it copies from the metrics
  carry the prefix \<open>res_\<close>; \<open>'d\<close> is the type of \<^verbatim>\<open>data\<close>.
\<close>

record 'd JobResult =
  success :: bool
  res_duration :: "int option"
  res_tasksProcessed :: nat
  res_tasksSuccess :: nat
  res_tasksFailed :: nat
  res_errors :: "string list"
  error :: "string option"
  res_data :: "'d option"
  res_timestamp :: int

text \<open>
  What the repository does when it is called: \<open>find_error\<close> is the message with which
  \<^verbatim>\<open>find\<close> rejects, \<open>update_error\<close> the message with which \<^verbatim>\<open>update(id, ...)\<close>
  rejects for a given id, \<open>bulk_update_error\<close> the one of the update by criteria;
  \<open>None\<close> is a call that succeeds. A thrown \<^verbatim>\<open>Error\<close> is its message.
\<close>

record db_env =
  find_error :: "string option"
  update_error :: "string \<Rightarrow> string option"
  bulk_update_error :: "string option"

text \<open>
  What the two batch handlers return. The human-readable \<^verbatim>\<open>message\<close> of the overdue
  result is left out.
\<close>

record overdue_result =
  processed :: nat
  o_success :: "nat option"
  o_failed :: "nat option"

record batch_result =
  updated :: nat
  b_taskIds :: "string list"
  b_processed :: bool

datatype 'd handler_data = Overdue overdue_result | BatchUpdate batch_result | Other 'd

definition TaskProcessorService_BATCH_SIZE :: nat where
  "TaskProcessorService_BATCH_SIZE = 50"

definition MAX_RETRY_ATTEMPTS :: nat where
  "MAX_RETRY_ATTEMPTS = 3"

subsection \<open>handleOverdueTasks\<close>

text \<open>
  The query of \<^verbatim>\<open>handleOverdueTasks\<close>: due before \<open>now\<close>, status not among the
  excluded ones, ordered by due date and, among equal due dates, by id (ids compare as
  strings, character by character). \<^verbatim>\<open>take: batchSize\<close> limits the rows when it is
  positive; with \<^verbatim>\<open>take: 0\<close> the query has no limit and returns every such row.
\<close>

definition overdue :: "int \<Rightarrow> Task \<Rightarrow> bool" where
  "overdue now t =
     ((case dueDate t of None \<Rightarrow> False | Some d \<Rightarrow> d < now) \<and> status t \<notin> set [COMPLETED])"

definition due_ms :: "Task \<Rightarrow> int" where
  "due_ms t = (case dueDate t of None \<Rightarrow> 0 | Some d \<Rightarrow> d)"

definition find_overdue :: "Task list \<Rightarrow> int \<Rightarrow> nat \<Rightarrow> Task list" where
  "find_overdue table now n =
     (let rows = sort_key (\<lambda>t. (due_ms t, task_id t)) (filter (overdue now) table)
      in if n = 0 then rows else take n rows)"

text \<open>\<^verbatim>\<open>processOverdueTask\<close>: one update by id, its failure wrapped in a new error.\<close>

definition processOverdueTask ::
  "db_env \<Rightarrow> int \<Rightarrow> Task \<Rightarrow> Task list \<Rightarrow> (string + unit) \<times> Task list" where
  "processOverdueTask env now task table =
     (case update_error env (task_id task) of
        Some msg \<Rightarrow>
          (Inl (''Failed to process overdue task '' @ task_id task @ '': '' @ msg), table)
      | None \<Rightarrow>
          (Inr (), map (\<lambda>r. if task_id r = task_id task then r\<lparr>updatedAt := now\<rparr> else r) table))"

text \<open>
  \<^verbatim>\<open>Promise.allSettled(overdueTasks.map(task => this.processOverdueTask(task)))\<close>:
  every task is processed, and the outcome of each is kept.
\<close>

fun settle_all ::
  "db_env \<Rightarrow> int \<Rightarrow> Task list \<Rightarrow> Task list \<Rightarrow> (string + unit) list \<times> Task list" where
  "settle_all env now [] table = ([], table)"
| "settle_all env now (task # rest) table =
     (case processOverdueTask env now task table of
        (r, table') \<Rightarrow>
          (case settle_all env now rest table' of
             (rs, table'') \<Rightarrow> (r # rs, table'')))"

text \<open>
  The \<^verbatim>\<open>results.forEach\<close> that follows: a fulfilled result counts as a success, a
  rejected one as a failure whose reason is appended to the errors. The reason is an
  \<^verbatim>\<open>Error\<close>, which the template string prints as \<^verbatim>\<open>Error: \<close> and its message.
\<close>

fun tally :: "JobMetrics \<Rightarrow> ((string + unit) \<times> Task) list \<Rightarrow> JobMetrics" where
  "tally metrics [] = metrics"
| "tally metrics ((Inr u, task) # rest) =
     tally (metrics\<lparr>tasksSuccess := tasksSuccess metrics + 1\<rparr>) rest"
| "tally metrics ((Inl reason, task) # rest) =
     tally (metrics\<lparr>tasksFailed := tasksFailed metrics + 1,
                    m_errors := m_errors metrics
                                  @ [''Task '' @ task_id task @ '': Error: '' @ reason]\<rparr>) rest"

text \<open>
  \<^verbatim>\<open>handleOverdueTasks\<close>. The cache invalidation that follows the tally goes
  through \<^verbatim>\<open>invalidateUserCaches\<close>, which catches whatever the cache raises, and touches the
  cache only; it is not part of the state here.
\<close>

definition handleOverdueTasks ::
  "db_env \<Rightarrow> Job \<Rightarrow> JobMetrics \<Rightarrow> Task list \<Rightarrow> int
     \<Rightarrow> (string + overdue_result) \<times> JobMetrics \<times> Task list" where
  "handleOverdueTasks env job metrics table now =
     (let n = (case batchSize (data job) of None \<Rightarrow> TaskProcessorService_BATCH_SIZE | Some b \<Rightarrow> b)
      in case find_error env of
           Some msg \<Rightarrow> (Inl msg, metrics, table)
         | None \<Rightarrow>
             (let overdueTasks = find_overdue table now n;
                  m1 = metrics\<lparr>tasksProcessed := length overdueTasks\<rparr>
              in if overdueTasks = [] then
                   (Inr \<lparr>processed = 0, o_success = None, o_failed = None\<rparr>, m1, table)
                 else
                   (case settle_all env now overdueTasks table of
                      (results, table') \<Rightarrow>
                        (let m2 = tally m1 (zip results overdueTasks)
                         in (Inr \<lparr>processed = tasksProcessed m2,
                                  o_success = Some (tasksSuccess m2),
                                  o_failed = Some (tasksFailed m2)\<rparr>,
                             m2, table')))))"

subsection \<open>handleBatchTaskUpdate\<close>

text \<open>
  The criteria \<^verbatim>\<open>{ id: In(taskIds), userId }\<close>, which the handler gives to the query
  and to the update. The two read a \<^verbatim>\<open>userId\<close> that is \<^verbatim>\<open>undefined\<close> differently:
  for \<^verbatim>\<open>find\<close> it is no criterion (\<open>matches\<close>), while \<^verbatim>\<open>update\<close> binds it as a
  value that no row has, so that the update changes no row (\<open>update_matches\<close>).
\<close>

definition matches :: "string list \<Rightarrow> string option \<Rightarrow> Task \<Rightarrow> bool" where
  "matches ids uid t =
     (task_id t \<in> set ids \<and> (case uid of None \<Rightarrow> True | Some u \<Rightarrow> userId t = u))"

definition update_matches :: "string list \<Rightarrow> string option \<Rightarrow> Task \<Rightarrow> bool" where
  "update_matches ids uid t =
     (task_id t \<in> set ids \<and> (case uid of None \<Rightarrow> False | Some u \<Rightarrow> userId t = u))"

text \<open>\<^verbatim>\<open>{ ...updateData, updatedAt: new Date() }\<close> written to a row.\<close>

definition apply_update :: "task_update option \<Rightarrow> int \<Rightarrow> Task \<Rightarrow> Task" where
  "apply_update upd now t =
     (case upd of
        None \<Rightarrow> t\<lparr>updatedAt := now\<rparr>
      | Some u \<Rightarrow>
          t\<lparr>title := (case upd_title u of None \<Rightarrow> title t | Some x \<Rightarrow> x),
            description := (case upd_description u of None \<Rightarrow> description t | Some x \<Rightarrow> x),
            status := (case upd_status u of None \<Rightarrow> status t | Some x \<Rightarrow> x),
            priority := (case upd_priority u of None \<Rightarrow> priority t | Some x \<Rightarrow> x),
            dueDate := (case upd_dueDate u of None \<Rightarrow> dueDate t | Some x \<Rightarrow> x),
            userId := (case upd_userId u of None \<Rightarrow> userId t | Some x \<Rightarrow> x),
            updatedAt := now\<rparr>)"

text \<open>\<^verbatim>\<open>missingIds.join(', ')\<close>.\<close>

fun join_comma :: "string list \<Rightarrow> string" where
  "join_comma [] = []"
| "join_comma [x] = x"
| "join_comma (x # y # zs) = x @ '', '' @ join_comma (y # zs)"

text \<open>
  \<^verbatim>\<open>handleBatchTaskUpdate\<close>. The check of \<^verbatim>\<open>taskIds\<close> throws before the
  \<^verbatim>\<open>try\<close> block; every failure inside the block passes through the \<^verbatim>\<open>catch\<close>
  clause, which records it in the metrics and throws it again.
\<close>

definition handleBatchTaskUpdate ::
  "db_env \<Rightarrow> Job \<Rightarrow> JobMetrics \<Rightarrow> Task list \<Rightarrow> int
     \<Rightarrow> (string + batch_result) \<times> JobMetrics \<times> Task list" where
  "handleBatchTaskUpdate env job metrics table now =
     (case taskIds (data job) of
        None \<Rightarrow> (Inl ''Missing or invalid taskIds array'', metrics, table)
      | Some ids \<Rightarrow>
          if ids = [] then (Inl ''Missing or invalid taskIds array'', metrics, table)
          else
            (let uid = data_userId (data job);
                 m1 = metrics\<lparr>tasksProcessed := length ids\<rparr>;
                 caught = (\<lambda>msg. (Inl msg,
                                   m1\<lparr>tasksFailed := length ids, m_errors := m_errors m1 @ [msg]\<rparr>,
                                   table))
             in case find_error env of
                  Some msg \<Rightarrow> caught msg
                | None \<Rightarrow>
                    (let tasks = filter (matches ids uid) table
                     in if length tasks \<noteq> length ids then
                          (let foundIds = map task_id tasks;
                               missingIds = filter (\<lambda>i. i \<notin> set foundIds) ids
                           in caught (''Tasks not found or access denied: '' @ join_comma missingIds))
                        else
                          (case bulk_update_error env of
                             Some msg \<Rightarrow> caught msg
                           | None \<Rightarrow>
                               (let affected = length (filter (update_matches ids uid) table);
                                    table' = map (\<lambda>r. if update_matches ids uid r
                                                       then apply_update (updateData (data job)) now r
                                                       else r) table
                                in (Inr \<lparr>updated = affected, b_taskIds = ids, b_processed = True\<rparr>,
                                    m1\<lparr>tasksSuccess := affected\<rparr>,
                                    table'))))))"

subsection \<open>process\<close>

text \<open>
  The five handlers that no property below looks into are parameters of the worker: each
  is a function of the same shape as the two above, giving the thrown message or the
  returned data, the metrics and the table.
\<close>

type_synonym 'd handler =
  "db_env \<Rightarrow> Job \<Rightarrow> JobMetrics \<Rightarrow> Task list \<Rightarrow> int \<Rightarrow> (string + 'd) \<times> JobMetrics \<times> Task list"

record 'd other_handlers =
  handleTaskCreated :: "'d handler"
  handleTaskStatusUpdate :: "'d handler"
  handleLegacyStatusUpdate :: "'d handler"
  handleLegacyOverdueTasks :: "'d handler"
  handleCleanupCompletedTasks :: "'d handler"

definition createJobResult ::
  "bool \<Rightarrow> JobMetrics \<Rightarrow> string option \<Rightarrow> 'd option \<Rightarrow> int \<Rightarrow> 'd JobResult" where
  "createJobResult ok metrics err dat now =
     \<lparr>success = ok,
      res_duration = duration metrics,
      res_tasksProcessed = tasksProcessed metrics,
      res_tasksSuccess = tasksSuccess metrics,
      res_tasksFailed = tasksFailed metrics,
      res_errors = m_errors metrics,
      error = err,
      res_data = dat,
      res_timestamp = now\<rparr>"

text \<open>Putting the data of a handler under its constructor of \<open>handler_data\<close>.\<close>

definition tagged ::
  "('a \<Rightarrow> 'd handler_data) \<Rightarrow> (string + 'a) \<times> JobMetrics \<times> Task list
     \<Rightarrow> (string + 'd handler_data) \<times> JobMetrics \<times> Task list" where
  "tagged tag r = (case r of (Inl e, m, t) \<Rightarrow> (Inl e, m, t) | (Inr x, m, t) \<Rightarrow> (Inr (tag x), m, t))"

text \<open>The \<^verbatim>\<open>switch (job.name)\<close>; \<open>None\<close> is its \<^verbatim>\<open>default\<close> branch.\<close>

definition dispatch ::
  "'d other_handlers \<Rightarrow> db_env \<Rightarrow> Job \<Rightarrow> JobMetrics \<Rightarrow> Task list \<Rightarrow> int
     \<Rightarrow> ((string + 'd handler_data) \<times> JobMetrics \<times> Task list) option" where
  "dispatch H env job metrics table now =
     (if name job = ''task-created''
        then Some (tagged Other (handleTaskCreated H env job metrics table now))
      else if name job = ''task-status-updated''
        then Some (tagged Other (handleTaskStatusUpdate H env job metrics table now))
      else if name job = ''task-status-update''
        then Some (tagged Other (handleLegacyStatusUpdate H env job metrics table now))
      else if name job = ''process-overdue-tasks''
        then Some (tagged Overdue (handleOverdueTasks env job metrics table now))
      else if name job = ''overdue-tasks-notification''
        then Some (tagged Other (handleLegacyOverdueTasks H env job metrics table now))
      else if name job = ''batch-task-update''
        then Some (tagged BatchUpdate (handleBatchTaskUpdate env job metrics table now))
      else if name job = ''cleanup-completed-tasks''
        then Some (tagged Other (handleCleanupCompletedTasks H env job metrics table now))
      else None)"

text \<open>
  \<^verbatim>\<open>process\<close>: \<open>Inl\<close> is the error thrown again for the queue to retry, \<open>Inr\<close> the
  returned job result. \<open>now\<close> is the clock at the start, \<open>finish\<close> the clock when the
  handler has ended.
\<close>

definition process ::
  "'d other_handlers \<Rightarrow> db_env \<Rightarrow> Job \<Rightarrow> Task list \<Rightarrow> int \<Rightarrow> int
     \<Rightarrow> (string + 'd handler_data JobResult) \<times> Task list" where
  "process H env job table now finish =
     (let metrics = \<lparr>startTime = now, endTime = None, duration = None, tasksProcessed = 0,
                     tasksSuccess = 0, tasksFailed = 0, m_errors = []\<rparr>
      in case dispatch H env job metrics table now of
           None \<Rightarrow>
             (let err = ''Unknown job type: '' @ name job
              in (Inr (createJobResult False (metrics\<lparr>m_errors := m_errors metrics @ [err]\<rparr>)
                         (Some err) None finish),
                  table))
         | Some (Inr result, m, table') \<Rightarrow>
             (let m' = m\<lparr>endTime := Some finish, duration := Some (finish - startTime m)\<rparr>
              in (Inr (createJobResult True m' None (Some result) finish), table'))
         | Some (Inl errorMessage, m, table') \<Rightarrow>
             (let m' = m\<lparr>m_errors := m_errors m @ [errorMessage],
                          endTime := Some finish, duration := Some (finish - startTime m)\<rparr>
              in if attemptsMade job < MAX_RETRY_ATTEMPTS - 1
                 then (Inl errorMessage, table')
                 else (Inr (createJobResult False m' (Some errorMessage) None finish), table')))"

subsection \<open>The queue's side of a job\<close>

text \<open>
  The retry contract of the queue (BullMQ) that \<^verbatim>\<open>process\<close> relies on
  (\<^verbatim>\<open>throw error; // Let BullMQ handle the retry\<close>): a job whose processor returns is
  completed with the returned value; a job whose processor throws has \<^verbatim>\<open>attemptsMade\<close>
  incremented and is run again while that number is below \<^verbatim>\<open>opts.attempts\<close>, and is
  failed otherwise. \<open>run_job\<close> runs a job to its end and gives the terminal state, the
  values of \<^verbatim>\<open>attemptsMade\<close> with which the processor was executed, in order, and the
  table.
\<close>

datatype 'r job_end = Completed 'r | Failed string

function run_job ::
  "(Job \<Rightarrow> Task list \<Rightarrow> (string + 'r) \<times> Task list) \<Rightarrow> Job \<Rightarrow> Task list
     \<Rightarrow> 'r job_end \<times> nat list \<times> Task list" where
  "run_job proc job table =
     (case proc job table of
        (Inr r, table') \<Rightarrow> (Completed r, [attemptsMade job], table')
      | (Inl e, table') \<Rightarrow>
          if attemptsMade job + 1 < attempts (job_opts job)
          then (case run_job proc (job\<lparr>attemptsMade := attemptsMade job + 1\<rparr>) table' of
                  (final, executed, table'') \<Rightarrow> (final, attemptsMade job # executed, table''))
          else (Failed e, [attemptsMade job], table'))"
  by pat_completeness auto
termination
  by (relation "measure (\<lambda>(proc, job, table). attempts (job_opts job) - attemptsMade job)") auto

subsection \<open>Vocabulary for the properties of the worker\<close>

text \<open>
  For a task handed to \<open>processOverdueTask\<close>: whether its update succeeds, what its
  promise settles to, and the line that a failure leaves in the errors of the metrics.
\<close>

definition update_ok :: "db_env \<Rightarrow> Task \<Rightarrow> bool" where
  "update_ok env t = (update_error env (task_id t) = None)"

definition item_outcome :: "db_env \<Rightarrow> Task \<Rightarrow> string + unit" where
  "item_outcome env t =
     (case update_error env (task_id t) of
        Some msg \<Rightarrow> Inl (''Failed to process overdue task '' @ task_id t @ '': '' @ msg)
      | None \<Rightarrow> Inr ())"

definition item_error :: "db_env \<Rightarrow> Task \<Rightarrow> string" where
  "item_error env t =
     ''Task '' @ task_id t @ '': Error: Failed to process overdue task '' @ task_id t @ '': ''
       @ (case update_error env (task_id t) of None \<Rightarrow> [] | Some msg \<Rightarrow> msg)"

text \<open>
  The row \<open>r\<close> after a batch over the tasks \<open>ts\<close>: stamped with \<open>now\<close> when it is the row
  of a task of the batch whose update succeeded, unchanged otherwise.
\<close>

definition touch :: "db_env \<Rightarrow> int \<Rightarrow> Task list \<Rightarrow> Task \<Rightarrow> Task" where
  "touch env now ts r =
     (if task_id r \<in> set (map task_id (filter (update_ok env) ts)) then r\<lparr>updatedAt := now\<rparr> else r)"

text \<open>
  The table that one execution of \<open>handleBatchTaskUpdate\<close> leaves, started by
  \<open>process\<close> with fresh metrics at clock \<open>now\<close>.
\<close>

definition batch_update_table :: "db_env \<Rightarrow> Job \<Rightarrow> Task list \<Rightarrow> int \<Rightarrow> Task list" where
  "batch_update_table env job table now =
     snd (snd (handleBatchTaskUpdate env job
                 \<lparr>startTime = now, endTime = None, duration = None, tasksProcessed = 0,
                  tasksSuccess = 0, tasksFailed = 0, m_errors = []\<rparr> table now))"

text \<open>A worker for closed evaluations, on jobs that reach none of its five other handlers.\<close>

definition unused_handlers :: "unit other_handlers" where
  "unused_handlers =
     \<lparr>handleTaskCreated = (\<lambda>env job m table now. (Inl ''unused'', m, table)),
      handleTaskStatusUpdate = (\<lambda>env job m table now. (Inl ''unused'', m, table)),
      handleLegacyStatusUpdate = (\<lambda>env job m table now. (Inl ''unused'', m, table)),
      handleLegacyOverdueTasks = (\<lambda>env job m table now. (Inl ''unused'', m, table)),
      handleCleanupCompletedTasks = (\<lambda>env job m table now. (Inl ''unused'', m, table))\<rparr>"

text \<open>Jobs, rows and a repository without faults for closed evaluations.\<close>

definition no_data :: job_data where
  "no_data = \<lparr>batchNumber = None, totalBatches = None, batchSize = None, timestamp = None,
              taskIds = None, updateData = None, data_userId = None\<rparr>"

definition default_opts :: job_opts where
  "default_opts = \<lparr>attempts = 3, backoff = (exponential, 2000), removeOnComplete = 15,
                   removeOnFail = 0, delay = 0\<rparr>"

definition failing_job :: Job where
  "failing_job =
     \<lparr>job_id = ''17'', name = ''batch-task-update'',
      data = no_data\<lparr>data_userId := Some ''u1''\<rparr>,
      job_opts = default_opts, attemptsMade = 0\<rparr>"

definition sample_task :: "string \<Rightarrow> string \<Rightarrow> int \<Rightarrow> Task" where
  "sample_task i u due =
     \<lparr>task_id = i, title = ''report'', description = None, status = PENDING, priority = MEDIUM,
      dueDate = Some due, userId = u, createdAt = 0, updatedAt = 0\<rparr>"

definition healthy_db :: db_env where
  "healthy_db = \<lparr>find_error = None, update_error = (\<lambda>i. None), bulk_update_error = None\<rparr>"

definition flaky_db :: db_env where
  "flaky_db = \<lparr>find_error = None,
               update_error = (\<lambda>i. if i = ''b'' then Some ''deadlock detected'' else None),
               bulk_update_error = None\<rparr>"

definition overdue_job :: Job where
  "overdue_job = \<lparr>job_id = ''18'', name = ''process-overdue-tasks'', data = no_data,
                  job_opts = default_opts, attemptsMade = 0\<rparr>"

definition complete_job :: Job where
  "complete_job =
     \<lparr>job_id = ''19'', name = ''batch-task-update'',
      data = no_data\<lparr>taskIds := Some [''a''],
                      updateData := Some \<lparr>upd_title = None, upd_description = None,
                                          upd_status = Some COMPLETED, upd_priority = None,
                                          upd_dueDate = None, upd_userId = None\<rparr>,
                      data_userId := Some ''u1''\<rparr>,
      job_opts = default_opts, attemptsMade = 0\<rparr>"

definition partial_job :: Job where
  "partial_job =
     \<lparr>job_id = ''20'', name = ''batch-task-update'',
      data = no_data\<lparr>taskIds := Some [''a'', ''x''],
                      updateData := Some \<lparr>upd_title = None, upd_description = None,
                                          upd_status = Some COMPLETED, upd_priority = None,
                                          upd_dueDate = None, upd_userId = None\<rparr>,
                      data_userId := Some ''u1''\<rparr>,
      job_opts = default_opts, attemptsMade = 0\<rparr>"

section \<open>Properties of the rate limiter\<close>

text \<open>
  C10. In fallback (fixed-window) mode a denied check changes nothing: when the entry of
  the identifier has \<open>count \<ge> limit\<close> and \<open>resetTime > now\<close>, \<open>checkRateLimit\<close> answers
  \<open>allowed = False\<close> with \<open>remaining = 0\<close>, reports the stored count and reset time, and
  returns the state it was given, so the stored \<open>(count, resetTime)\<close> pair is neither
  incremented nor extended.
\<close>

theorem fallback_denied_check_keeps_window:
  assumes "\<not> rl_isRedisAvailable st"
    and "fallbackStorage st (rate_key config identifier) = Some d"
    and "limit config \<le> count d"
    and "now < resetTime d"
  shows "checkRateLimit st identifier config now =
           (Inr \<lparr>allowed = False, r_limit = limit config, remaining = 0,
                 r_resetTime = resetTime d, totalHits = count d\<rparr>, st)"
  using assms by (simp add: checkRateLimit_def checkFallbackRateLimit_def)

theorem fallback_denied_check_keeps_window_witness:
  "checkRateLimit
     \<lparr>rl_isRedisAvailable = False, rl_fault = Some ConnectionFailure, rl_redis = Map.empty,
      fallbackStorage = [''rl:user:42'' \<mapsto> \<lparr>count = 5, resetTime = 61000\<rparr>]\<rparr>
     ''user:42'' \<lparr>limit = 5, windowMs = 60000, keyPrefix = None, message = None\<rparr> 30000
   = (Inr \<lparr>allowed = False, r_limit = 5, remaining = 0, r_resetTime = 61000, totalHits = 5\<rparr>,
      \<lparr>rl_isRedisAvailable = False, rl_fault = Some ConnectionFailure, rl_redis = Map.empty,
       fallbackStorage = [''rl:user:42'' \<mapsto> \<lparr>count = 5, resetTime = 61000\<rparr>]\<rparr>)"
  using fallback_denied_check_keeps_window
          [of "\<lparr>rl_isRedisAvailable = False, rl_fault = Some ConnectionFailure, rl_redis = Map.empty,
                fallbackStorage = [''rl:user:42'' \<mapsto> \<lparr>count = 5, resetTime = 61000\<rparr>]\<rparr>"
              "\<lparr>limit = 5, windowMs = 60000, keyPrefix = None, message = None\<rparr>"
              "''user:42''" "\<lparr>count = 5, resetTime = 61000\<rparr>" 30000]
  by (simp add: rate_key_def)

text \<open>
  C3. The claim: when an unexpected error occurs during \<open>checkRateLimit\<close>, the call still
  resolves to a decision with \<open>allowed = True\<close>. On the code the promise of
  \<open>checkRedisRateLimit\<close> is returned from inside the \<^verbatim>\<open>try\<close> block without
  \<^verbatim>\<open>await\<close>, so its rejection never reaches the \<^verbatim>\<open>catch\<close> clause: with the remote
  store marked available and the script call timing out, \<open>checkRateLimit\<close> rejects with
  the remote failure and gives no decision.
\<close>

theorem checkRateLimit_remote_failure_rejects:
  "checkRateLimit
     \<lparr>rl_isRedisAvailable = True, rl_fault = Some TimeoutFailure, rl_redis = Map.empty,
      fallbackStorage = Map.empty\<rparr>
     ''user:42'' \<lparr>limit = 5, windowMs = 60000, keyPrefix = None, message = None\<rparr> 1700000000000
   = (Inl TimeoutFailure,
      \<lparr>rl_isRedisAvailable = True, rl_fault = Some TimeoutFailure, rl_redis = Map.empty,
       fallbackStorage = Map.empty\<rparr>)"
  by (simp add: checkRateLimit_def checkRedisRateLimit_def)

text \<open>The same for every state, identifier, configuration and failure.\<close>

lemma checkRateLimit_rejects_whenever_remote_fails:
  "rl_isRedisAvailable st \<Longrightarrow> rl_fault st = Some f \<Longrightarrow>
     checkRateLimit st identifier config now = (Inl f, st)"
  by (simp add: checkRateLimit_def checkRedisRateLimit_def)

text \<open>
  C4. The claim: \<open>limit\<close> checks within one window are all allowed and the next one in the
  same window is denied. The script adds the clock reading itself as the member of the
  sorted set, so two checks that read the same millisecond are one member and count
  once: with \<open>limit = 2\<close> and a window of 60 seconds, three checks at the same clock
  reading are all allowed, and the set holds a single entry afterwards.
\<close>

theorem same_millisecond_checks_exceed_limit:
  "run_checks
     \<lparr>rl_isRedisAvailable = True, rl_fault = None, rl_redis = Map.empty,
      fallbackStorage = Map.empty\<rparr>
     ''user:42'' \<lparr>limit = 2, windowMs = 60000, keyPrefix = None, message = None\<rparr>
     [1700000000000, 1700000000000, 1700000000000]
   = ([Inr \<lparr>allowed = True, r_limit = 2, remaining = 1, r_resetTime = 1700000060000, totalHits = 1\<rparr>,
       Inr \<lparr>allowed = True, r_limit = 2, remaining = 0, r_resetTime = 1700000060000, totalHits = 2\<rparr>,
       Inr \<lparr>allowed = True, r_limit = 2, remaining = 0, r_resetTime = 1700000060000, totalHits = 2\<rparr>],
      \<lparr>rl_isRedisAvailable = True, rl_fault = None,
       rl_redis = [''rl:user:42'' \<mapsto> \<lparr>members = [1700000000000], expireAt = Some 1700000060000\<rparr>],
       fallbackStorage = Map.empty\<rparr>)"
  by (simp add: checkRateLimit_def checkRedisRateLimit_def rate_limit_script_def rate_key_def
        live_zset_def zremrangebyscore_def zcard_def zoldest_def zadd_def store_zset_def)

lemma fold_min_least: "\<forall>y \<in> set xs. x < y \<Longrightarrow> fold min xs (x::int) = x"
  by (induction xs) (simp_all add: min_def)

lemma zoldest_sorted: "sorted_wrt (<) (x # xs) \<Longrightarrow> zoldest (x # xs) = Some x"
  by (simp add: zoldest_def fold_min_least)

lemma ceil_window:
  assumes "0 < (w::int)"
  shows "w \<le> (- ((- w) div 1000)) * 1000" and "0 < - ((- w) div 1000)"
proof -
  have a: "(- w) div 1000 * 1000 + (- w) mod 1000 = - w"
    by simp
  have b: "0 \<le> (- w) mod 1000"
    by simp
  show "w \<le> (- ((- w) div 1000)) * 1000"
    using a b by linarith
  have "(- w) div 1000 < 0"
    using assms by (simp add: div_neg_pos_less0)
  then show "0 < - ((- w) div 1000)"
    by simp
qed

lemma check_in_window:
  assumes "rl_isRedisAvailable st" and "rl_fault st = None"
    and key: "rl_redis st (rate_key config identifier) = Some \<lparr>members = m # ms, expireAt = Some e\<rparr>"
    and sorted: "sorted_wrt (<) ((m # ms) @ [now])"
    and inwin: "now < m + windowMs config" and ex: "m + windowMs config \<le> e"
  shows "checkRateLimit st identifier config now =
          (if int (length (m # ms)) < limit config
           then (Inr \<lparr>allowed = True, r_limit = limit config,
                      remaining = limit config - int (length (m # ms)) - 1,
                      r_resetTime = now + windowMs config, totalHits = int (length (m # ms)) + 1\<rparr>,
                 st\<lparr>rl_redis := (rl_redis st)(rate_key config identifier \<mapsto>
                        \<lparr>members = (m # ms) @ [now],
                         expireAt = Some (now + (- ((- windowMs config) div 1000)) * 1000)\<rparr>)\<rparr>)
           else (Inr \<lparr>allowed = False, r_limit = limit config, remaining = 0,
                      r_resetTime = m + windowMs config, totalHits = int (length (m # ms))\<rparr>, st))"
proof -
  let ?key = "rate_key config identifier"
  let ?w = "windowMs config"
  have m_le: "\<forall>x \<in> set (m # ms). m \<le> x" and lt_now: "\<forall>x \<in> set (m # ms). x < now"
    using sorted by (auto simp add: sorted_wrt_append)
  have wpos: "0 < ?w" using inwin lt_now by auto
  have live: "live_zset (rl_redis st) ?key now = Some \<lparr>members = m # ms, expireAt = Some e\<rparr>"
    using key inwin ex by (simp add: live_zset_def)
  have keep: "zremrangebyscore 0 (now - ?w) (m # ms) = m # ms"
    unfolding zremrangebyscore_def using m_le inwin by (intro filter_True) auto
  have old: "zoldest (m # ms) = Some m"
    using sorted by (intro zoldest_sorted) (simp add: sorted_wrt_append)
  have add: "zadd now (m # ms) = (m # ms) @ [now]"
    using lt_now by (auto simp add: zadd_def)
  have same: "store_zset (rl_redis st) ?key (m # ms) (Some e) = rl_redis st"
    using key by (auto simp add: store_zset_def)
  have script: "rate_limit_script (rl_redis st) ?key (now - ?w) now (limit config) ?w =
          (if int (length (m # ms)) < limit config
           then ((1, limit config, limit config - int (length (m # ms)) - 1, now + ?w,
                  int (length (m # ms)) + 1),
                 (rl_redis st)(?key \<mapsto> \<lparr>members = (m # ms) @ [now],
                         expireAt = Some (now + (- ((- ?w) div 1000)) * 1000)\<rparr>))
           else ((0, limit config, 0, m + ?w, int (length (m # ms))), rl_redis st))"
    using ceil_window(2) [OF wpos]
    by (simp add: rate_limit_script_def live keep zcard_def old add same Let_def)
  show ?thesis
    using assms(1,2)
    by (simp add: checkRateLimit_def checkRedisRateLimit_def script del: length_Cons)
qed

lemma first_check:
  assumes "rl_isRedisAvailable st" and "rl_fault st = None"
    and "live_zset (rl_redis st) (rate_key config identifier) now = None"
    and "0 < windowMs config" and "0 < limit config"
  shows "checkRateLimit st identifier config now =
           (Inr \<lparr>allowed = True, r_limit = limit config, remaining = limit config - 1,
                 r_resetTime = now + windowMs config, totalHits = 1\<rparr>,
            st\<lparr>rl_redis := (rl_redis st)(rate_key config identifier \<mapsto>
                   \<lparr>members = [now],
                    expireAt = Some (now + (- ((- windowMs config) div 1000)) * 1000)\<rparr>)\<rparr>)"
  using assms ceil_window(2) [OF assms(4)]
  by (simp add: checkRateLimit_def checkRedisRateLimit_def rate_limit_script_def
        zremrangebyscore_def zcard_def zadd_def Let_def)

text \<open>The script refines the specification on checks at distinct times inside one window.\<close>

lemma checks_in_window:
  assumes "rl_isRedisAvailable st" and "rl_fault st = None"
    and "rl_redis st (rate_key config identifier) = Some \<lparr>members = m # ms, expireAt = Some e\<rparr>"
    and "sorted_wrt (<) ((m # ms) @ ts)"
    and "\<forall>t \<in> set ts. t < m + windowMs config" and "m + windowMs config \<le> e"
  shows "fst (run_checks st identifier config ts)
           = map Inr (sliding_window_spec (limit config) (windowMs config) m (length (m # ms)) ts)"
  using assms
proof (induction ts arbitrary: st ms e)
  case Nil
  then show ?case by simp
next
  case (Cons t ts)
  let ?key = "rate_key config identifier"
  let ?w = "windowMs config"
  have s1: "sorted_wrt (<) ((m # ms) @ [t])"
    using Cons.prems(4) by (auto simp add: sorted_wrt_append)
  have tw: "t < m + ?w"
    using Cons.prems(5) by simp
  have step: "checkRateLimit st identifier config t =
          (if int (length (m # ms)) < limit config
           then (Inr \<lparr>allowed = True, r_limit = limit config,
                      remaining = limit config - int (length (m # ms)) - 1,
                      r_resetTime = t + ?w, totalHits = int (length (m # ms)) + 1\<rparr>,
                 st\<lparr>rl_redis := (rl_redis st)(?key \<mapsto>
                        \<lparr>members = (m # ms) @ [t],
                         expireAt = Some (t + (- ((- ?w) div 1000)) * 1000)\<rparr>)\<rparr>)
           else (Inr \<lparr>allowed = False, r_limit = limit config, remaining = 0,
                      r_resetTime = m + ?w, totalHits = int (length (m # ms))\<rparr>, st))"
    by (rule check_in_window [OF Cons.prems(1,2,3) s1 tw Cons.prems(6)])
  have mt: "m < t"
    using s1 by (auto simp add: sorted_wrt_append)
  then have wpos: "0 < ?w"
    using tw by simp
  show ?case
  proof (cases "int (length (m # ms)) < limit config")
    case True
    let ?st' = "st\<lparr>rl_redis := (rl_redis st)(?key \<mapsto>
                        \<lparr>members = m # (ms @ [t]),
                         expireAt = Some (t + (- ((- ?w) div 1000)) * 1000)\<rparr>)\<rparr>"
    have ih: "fst (run_checks ?st' identifier config ts)
           = map Inr (sliding_window_spec (limit config) ?w m (length (m # (ms @ [t]))) ts)"
    proof (rule Cons.IH)
      show "rl_isRedisAvailable ?st'" using Cons.prems(1) by simp
      show "rl_fault ?st' = None" using Cons.prems(2) by simp
      show "rl_redis ?st' ?key = Some \<lparr>members = m # (ms @ [t]),
               expireAt = Some (t + (- ((- ?w) div 1000)) * 1000)\<rparr>"
        by simp
      show "sorted_wrt (<) ((m # (ms @ [t])) @ ts)"
        using Cons.prems(4) by simp
      show "\<forall>x \<in> set ts. x < m + ?w"
        using Cons.prems(5) by simp
      show "m + ?w \<le> t + (- ((- ?w) div 1000)) * 1000"
        using mt ceil_window(1) [OF wpos] by linarith
    qed
    show ?thesis
      using True step ih by (simp add: split_beta)
  next
    case False
    have ih: "fst (run_checks st identifier config ts)
           = map Inr (sliding_window_spec (limit config) ?w m (length (m # ms)) ts)"
    proof (rule Cons.IH [OF Cons.prems(1,2,3) _ _ Cons.prems(6)])
      show "sorted_wrt (<) ((m # ms) @ ts)"
        using Cons.prems(4) by (auto simp add: sorted_wrt_append)
      show "\<forall>x \<in> set ts. x < m + ?w"
        using Cons.prems(5) by simp
    qed
    show ?thesis
      using False step ih by (simp add: split_beta)
  qed
qed

lemma checks_from_empty:
  assumes "rl_isRedisAvailable st" and "rl_fault st = None"
    and "live_zset (rl_redis st) (rate_key config identifier) t = None"
    and "sorted_wrt (<) (t # ts)"
    and "\<forall>x \<in> set ts. x < t + windowMs config"
    and "0 < windowMs config" and "0 < limit config"
  shows "fst (run_checks st identifier config (t # ts))
           = map Inr (sliding_window_spec (limit config) (windowMs config) t 0 (t # ts))"
proof -
  let ?key = "rate_key config identifier"
  let ?w = "windowMs config"
  let ?st' = "st\<lparr>rl_redis := (rl_redis st)(?key \<mapsto>
                   \<lparr>members = [t], expireAt = Some (t + (- ((- ?w) div 1000)) * 1000)\<rparr>)\<rparr>"
  have first: "checkRateLimit st identifier config t =
           (Inr \<lparr>allowed = True, r_limit = limit config, remaining = limit config - 1,
                 r_resetTime = t + ?w, totalHits = 1\<rparr>, ?st')"
    by (rule first_check [OF assms(1,2,3,6,7)])
  have rest: "fst (run_checks ?st' identifier config ts)
           = map Inr (sliding_window_spec (limit config) ?w t (length [t]) ts)"
  proof (rule checks_in_window)
    show "rl_isRedisAvailable ?st'" using assms(1) by simp
    show "rl_fault ?st' = None" using assms(2) by simp
    show "rl_redis ?st' ?key = Some \<lparr>members = [t],
             expireAt = Some (t + (- ((- ?w) div 1000)) * 1000)\<rparr>"
      by simp
    show "sorted_wrt (<) ([t] @ ts)" using assms(4) by simp
    show "\<forall>x \<in> set ts. x < t + ?w" using assms(5) by simp
    show "t + ?w \<le> t + (- ((- ?w) div 1000)) * 1000"
      using ceil_window(1) [OF assms(6)] by linarith
  qed
  show ?thesis
    using first rest assms(7) by (simp add: split_beta)
qed

lemma length_sliding_window_spec:
  "length (sliding_window_spec L w oldest n ts) = length ts"
  by (induction ts arbitrary: n) simp_all

lemma spec_admits_below_limit:
  "i < length ts \<Longrightarrow> int n + int i < L \<Longrightarrow>
     sliding_window_spec L w oldest n ts ! i
       = \<lparr>allowed = True, r_limit = L, remaining = L - (int n + int i) - 1,
          r_resetTime = ts ! i + w, totalHits = int n + int i + 1\<rparr>"
proof (induction ts arbitrary: n i)
  case Nil
  then show ?case by simp
next
  case (Cons t ts)
  then show ?case by (cases i) auto
qed

lemma spec_denies_from_limit:
  "i < length ts \<Longrightarrow> L \<le> int n + int i \<Longrightarrow> int n \<le> L \<Longrightarrow>
     sliding_window_spec L w oldest n ts ! i
       = \<lparr>allowed = False, r_limit = L, remaining = 0,
          r_resetTime = oldest + w, totalHits = L\<rparr>"
proof (induction ts arbitrary: n i)
  case Nil
  then show ?case by simp
next
  case (Cons t ts)
  then show ?case by (cases i) auto
qed

text \<open>
  Where the script does meet the claim of C4: from a key that holds no live record, with a
  positive limit and window, checks at strictly increasing clock readings that all lie
  within one window of the first are admitted exactly while their index is below the
  limit, with \<open>remaining\<close> counting down to 0; every later one is denied with
  \<open>remaining = 0\<close> and the reset time of the first, oldest, event plus the window. The
  defect shown above needs two checks that read the same millisecond.
\<close>

lemma sliding_window_within_one_window:
  assumes "rl_isRedisAvailable st" and "rl_fault st = None"
    and "live_zset (rl_redis st) (rate_key config identifier) t = None"
    and "sorted_wrt (<) (t # ts)"
    and "\<forall>x \<in> set ts. x < t + windowMs config"
    and "0 < windowMs config" and "0 < limit config"
    and "i < length (t # ts)"
  shows "fst (run_checks st identifier config (t # ts)) ! i =
           (if int i < limit config
            then Inr \<lparr>allowed = True, r_limit = limit config, remaining = limit config - int i - 1,
                      r_resetTime = (t # ts) ! i + windowMs config, totalHits = int i + 1\<rparr>
            else Inr \<lparr>allowed = False, r_limit = limit config, remaining = 0,
                      r_resetTime = t + windowMs config, totalHits = limit config\<rparr>)"
proof -
  let ?spec = "sliding_window_spec (limit config) (windowMs config) t 0 (t # ts)"
  have run: "fst (run_checks st identifier config (t # ts)) = map Inr ?spec"
    by (rule checks_from_empty [OF assms(1-7)])
  have len: "length ?spec = length (t # ts)"
    by (rule length_sliding_window_spec)
  have "?spec ! i =
           (if int i < limit config
            then \<lparr>allowed = True, r_limit = limit config, remaining = limit config - int i - 1,
                  r_resetTime = (t # ts) ! i + windowMs config, totalHits = int i + 1\<rparr>
            else \<lparr>allowed = False, r_limit = limit config, remaining = 0,
                  r_resetTime = t + windowMs config, totalHits = limit config\<rparr>)"
    using spec_admits_below_limit [OF assms(8), of 0 "limit config" "windowMs config" t]
          spec_denies_from_limit [OF assms(8), of "limit config" 0 "windowMs config" t] assms(7)
    by auto
  then show ?thesis
    using run len assms(8) by (simp del: sliding_window_spec.simps)
qed

section \<open>Properties of the cache\<close>

lemmas cache_defs = set_cache_def get_def delete_def has_def mget_def mset_def
  serializeValue_def deserializeValue_def deepClone_def buildKey_def KEY_PREFIX_def DEFAULT_TTL_def
  r_setex_def r_get_def r_del_def r_exists_def r_mget_def r_pipeline_setex_def live_string_def
  count_error_def count_hit_def count_miss_def count_sets_def count_delete_def

lemmas json_defs = JSON_def json_stringify_def json_parse_def fresh_stats_def

lemma deserialize_all_keeps_absent:
  "deserialize_all C vals = Inr vs \<Longrightarrow> i < length vals \<Longrightarrow> vals ! i = None \<Longrightarrow> vs ! i = None"
proof (induction C vals arbitrary: vs i rule: deserialize_all.induct)
  case (1 C)
  then show ?case by simp
next
  case (2 C "values")
  then show ?case by (cases i) (auto split: sum.splits)
next
  case (3 C s "values")
  then show ?case by (cases i) (auto split: sum.splits if_splits)
qed

text \<open>
  C1. The claim: each of the six operations, invoked while the remote store fails, is
  retried against the fallback store and never rejects with the remote failure. On the
  code the backend is chosen by the flag \<open>isRedisAvailable\<close> before the call and no
  operation goes to the fallback map after a remote command has failed. With the flag set
  and the connection failing, \<open>set\<close> rejects with the remote error, and \<open>get\<close> answers
  \<open>None\<close> although the fallback map holds a live entry for the key.
\<close>

theorem remote_failure_not_retried_on_fallback:
  "fst (set_cache JSON
          \<lparr>isRedisAvailable = True, redis_fault = Some ConnectionFailure, redis = Map.empty,
           fallbackCache = Map.empty, stats = fresh_stats\<rparr>
          ''stats:u1'' (VBool True) \<lparr>ttl = Some 300, namespace = Some ''tasks'', compress = None\<rparr> 1000)
     = Inl (RemoteError ConnectionFailure)
   \<and> fst (get JSON
          \<lparr>isRedisAvailable = True, redis_fault = Some ConnectionFailure, redis = Map.empty,
           fallbackCache = [''taskflow:tasks:stats:u1'' \<mapsto> \<lparr>item_value = VBool True, expiresAt = 301000\<rparr>],
           stats = fresh_stats\<rparr>
          ''stats:u1'' \<lparr>ttl = None, namespace = Some ''tasks'', compress = None\<rparr> 2000)
     = None"
  by (simp add: cache_defs json_defs)

text \<open>
  C1 as amended. While the flag is set and the remote command fails, \<open>get\<close>, \<open>delete\<close>,
  \<open>has\<close> and \<open>mget\<close> resolve to the neutral answer (\<open>None\<close>, \<open>False\<close>, \<open>False\<close>, all
  \<open>None\<close>) and the only change of state is one more counted error, so the fallback map
  is neither read nor written; \<open>set\<close> and \<open>mset\<close> leave the fallback map as it was,
  too. While the flag is cleared, no operation touches the remote
  store: \<open>set\<close> cannot reject with a remote failure, \<open>mset\<close> resolves, and the remote
  contents are the same after each of the six operations.
\<close>

theorem remote_failure_degrades_reads:
  "(isRedisAvailable st \<and> redis_fault st = Some f \<longrightarrow>
      get C st key opts now = (None, count_error st)
    \<and> delete st key opts now = (False, count_error st)
    \<and> has st key opts now = (False, count_error st)
    \<and> mget C st keys opts now = (map (\<lambda>k. None) keys, count_error st)
    \<and> fallbackCache (snd (set_cache C st key v opts now)) = fallbackCache st
    \<and> fallbackCache (snd (mset C st pairs opts now)) = fallbackCache st)
 \<and> (\<not> isRedisAvailable st \<longrightarrow>
      fst (set_cache C st key v opts now) \<noteq> Inl (RemoteError f')
    \<and> fst (mset C st pairs opts now) = Inr ()
    \<and> redis (snd (set_cache C st key v opts now)) = redis st
    \<and> redis (snd (get C st key opts now)) = redis st
    \<and> redis (snd (delete st key opts now)) = redis st
    \<and> redis (snd (has st key opts now)) = redis st
    \<and> redis (snd (mget C st keys opts now)) = redis st
    \<and> redis (snd (mset C st pairs opts now)) = redis st)"
proof (intro conjI impI)
  assume a: "isRedisAvailable st \<and> redis_fault st = Some f"
  show "get C st key opts now = (None, count_error st)"
    using a by (simp add: get_def r_get_def)
  show "delete st key opts now = (False, count_error st)"
    using a by (simp add: delete_def r_del_def)
  show "has st key opts now = (False, count_error st)"
    using a by (simp add: has_def r_exists_def)
  show "mget C st keys opts now = (map (\<lambda>k. None) keys, count_error st)"
    using a by (simp add: mget_def r_mget_def)
  show "fallbackCache (snd (set_cache C st key v opts now)) = fallbackCache st"
    using a by (simp add: set_cache_def Let_def count_error_def count_sets_def split: sum.splits)
  show "fallbackCache (snd (mset C st pairs opts now)) = fallbackCache st"
    using a by (simp add: mset_def Let_def count_error_def count_sets_def split: sum.splits)
next
  assume b: "\<not> isRedisAvailable st"
  show "fst (set_cache C st key v opts now) \<noteq> Inl (RemoteError f')"
    using b by (simp add: set_cache_def Let_def serializeValue_def split: option.splits)
  show "fst (mset C st pairs opts now) = Inr ()"
    using b by (simp add: mset_def Let_def)
  show "redis (snd (set_cache C st key v opts now)) = redis st"
    using b by (simp add: set_cache_def Let_def count_error_def count_sets_def split: sum.splits)
  show "redis (snd (get C st key opts now)) = redis st"
    using b by (simp add: get_def Let_def count_error_def count_hit_def count_miss_def
                  split: sum.splits option.splits)
  show "redis (snd (delete st key opts now)) = redis st"
    using b by (simp add: delete_def count_delete_def Let_def)
  show "redis (snd (has st key opts now)) = redis st"
    using b by (simp add: has_def Let_def split: option.splits)
  show "redis (snd (mget C st keys opts now)) = redis st"
    using b by (simp add: mget_def Let_def)
  show "redis (snd (mset C st pairs opts now)) = redis st"
    using b by (simp add: mset_def Let_def count_sets_def)
qed

theorem remote_failure_degrades_reads_witness:
  "get JSON
     \<lparr>isRedisAvailable = True, redis_fault = Some TimeoutFailure, redis = Map.empty,
      fallbackCache = [''taskflow:default:k'' \<mapsto> \<lparr>item_value = VBool True, expiresAt = 9000\<rparr>],
      stats = fresh_stats\<rparr>
     ''k'' \<lparr>ttl = None, namespace = None, compress = None\<rparr> 5000
   = (None,
      \<lparr>isRedisAvailable = True, redis_fault = Some TimeoutFailure, redis = Map.empty,
       fallbackCache = [''taskflow:default:k'' \<mapsto> \<lparr>item_value = VBool True, expiresAt = 9000\<rparr>],
       stats = fresh_stats\<lparr>errors := 1\<rparr>\<rparr>)
   \<and> fst (mset JSON
            \<lparr>isRedisAvailable = False, redis_fault = Some TimeoutFailure, redis = Map.empty,
             fallbackCache = Map.empty, stats = fresh_stats\<rparr>
            [(''k'', VBool True)] \<lparr>ttl = None, namespace = None, compress = None\<rparr> 5000)
     = Inr ()"
  using remote_failure_degrades_reads
          [where st = "\<lparr>isRedisAvailable = True, redis_fault = Some TimeoutFailure, redis = Map.empty,
                        fallbackCache = [''taskflow:default:k'' \<mapsto> \<lparr>item_value = VBool True, expiresAt = 9000\<rparr>],
                        stats = fresh_stats\<rparr>"
             and f = TimeoutFailure and C = JSON and key = "''k''"
             and opts = "\<lparr>ttl = None, namespace = None, compress = None\<rparr>" and now = 5000]
        remote_failure_degrades_reads
          [where st = "\<lparr>isRedisAvailable = False, redis_fault = Some TimeoutFailure, redis = Map.empty,
                        fallbackCache = Map.empty, stats = fresh_stats\<rparr>"
             and C = JSON and pairs = "[(''k'', VBool True)]"
             and opts = "\<lparr>ttl = None, namespace = None, compress = None\<rparr>" and now = 5000]
  by (simp add: count_error_def fresh_stats_def)

text \<open>
  C6. No read returns an entry past its expiry time, whichever backend serves it: when
  the serving backend holds an entry for the key whose expiry time lies before \<open>now\<close>,
  \<open>get\<close> answers \<open>None\<close>, \<open>has\<close> answers \<open>False\<close>, and \<open>mget\<close> answers \<open>None\<close> at every
  position of that key. An entry stays readable at the very millisecond of its expiry
  time (the code tests \<open>expiresAt < now\<close>) and is absent from the next one on.
\<close>

theorem no_read_past_expiry:
  assumes "past_expiry st (buildKey key (namespace opts)) now"
  shows "fst (get C st key opts now) = None
       \<and> fst (has st key opts now) = False
       \<and> (\<forall>i < length keys. keys ! i = key \<longrightarrow> fst (mget C st keys opts now) ! i = None)"
proof (intro conjI allI impI)
  show "fst (get C st key opts now) = None"
    using assms
    by (auto simp add: past_expiry_def get_def r_get_def live_string_def
          split: if_splits option.splits sum.splits)
  show "fst (has st key opts now) = False"
    using assms
    by (auto simp add: past_expiry_def has_def r_exists_def live_string_def
          split: if_splits option.splits sum.splits)
next
  fix i assume i: "i < length keys" and k: "keys ! i = key"
  show "fst (mget C st keys opts now) ! i = None"
  proof (cases "isRedisAvailable st")
    case False
    then show ?thesis using assms i k
      by (auto simp add: past_expiry_def mget_def split: option.splits)
  next
    case True
    let ?cks = "map (\<lambda>key. buildKey key (namespace opts)) keys"
    show ?thesis
    proof (cases "r_mget (redis_fault st) (redis st) ?cks now")
      case (Inl f)
      then show ?thesis using True i by (simp add: mget_def)
    next
      case (Inr vals)
      then have vals: "vals = map (\<lambda>k. live_string (redis st) k now) ?cks"
        by (auto simp add: r_mget_def split: option.splits if_splits)
      have absent: "vals ! i = None"
        using assms True i k
        by (auto simp add: vals past_expiry_def live_string_def split: option.splits)
      show ?thesis
      proof (cases "deserialize_all C vals")
        case (Inl e)
        then show ?thesis using True Inr i by (simp add: mget_def)
      next
        case des: (Inr vs)
        have "vs ! i = None"
          using deserialize_all_keeps_absent [OF des _ absent] i by (simp add: vals)
        then show ?thesis using True Inr des by (simp add: mget_def)
      qed
    qed
  qed
qed

theorem no_read_past_expiry_witness:
  "fst (get JSON
          \<lparr>isRedisAvailable = False, redis_fault = None, redis = Map.empty,
           fallbackCache = [''taskflow:default:k'' \<mapsto> \<lparr>item_value = VBool True, expiresAt = 301000\<rparr>],
           stats = fresh_stats\<rparr>
          ''k'' \<lparr>ttl = None, namespace = None, compress = None\<rparr> 301001) = None
   \<and> fst (get JSON
          \<lparr>isRedisAvailable = True, redis_fault = None,
           redis = [''taskflow:default:k'' \<mapsto> \<lparr>rs_value = ''true'', rs_expireAt = 301000\<rparr>],
           fallbackCache = Map.empty, stats = fresh_stats\<rparr>
          ''k'' \<lparr>ttl = None, namespace = None, compress = None\<rparr> 301001) = None"
proof -
  let ?fb = "\<lparr>isRedisAvailable = False, redis_fault = None, redis = Map.empty,
              fallbackCache = [''taskflow:default:k'' \<mapsto> \<lparr>item_value = VBool True, expiresAt = 301000\<rparr>],
              stats = fresh_stats\<rparr>"
  let ?re = "\<lparr>isRedisAvailable = True, redis_fault = None,
              redis = [''taskflow:default:k'' \<mapsto> \<lparr>rs_value = ''true'', rs_expireAt = 301000\<rparr>],
              fallbackCache = Map.empty :: string \<rightharpoonup> jsval fallback_item, stats = fresh_stats\<rparr>"
  let ?opts = "\<lparr>ttl = None, namespace = None, compress = None\<rparr>"
  have h1: "past_expiry ?fb (buildKey ''k'' (namespace ?opts)) 301001"
    by (simp add: past_expiry_def buildKey_def KEY_PREFIX_def)
  have h2: "past_expiry ?re (buildKey ''k'' (namespace ?opts)) 301001"
    by (simp add: past_expiry_def buildKey_def KEY_PREFIX_def)
  show ?thesis
    using no_read_past_expiry [OF h1, of JSON "[]"] no_read_past_expiry [OF h2, of JSON "[]"]
    by simp
qed




section \<open>Properties of the scheduler\<close>

lemma enqueue_batches_eq:
  "enqueue_batches add_fails clock bc bs (q, n)
     = (q @ map (batch_job clock bc) (filter (\<lambda>b. \<not> add_fails b) bs),
        n + length (filter (\<lambda>b. \<not> add_fails b) bs))"
  by (induction bs arbitrary: q n) simp_all

lemma batch_delays_increase:
  "sorted_wrt (<) (map (\<lambda>j. delay (q_opts j))
                      (map (batch_job clock bc) (filter ok [0..<bc])))"
proof -
  have "sorted_wrt (<) (filter ok [0..<bc])"
    by (rule sorted_wrt_filter) (rule sorted_wrt_upt)
  then have "sorted_wrt (\<lambda>a b. a * 1000 < b * (1000::nat)) (filter ok [0..<bc])"
    by (rule sorted_wrt_mono_rel [rotated]) simp
  then show ?thesis
    by (simp add: sorted_wrt_map batch_job_def)
qed

text \<open>
  C5. A scheduling pass that is not skipped by the guard and finds \<open>N\<close> eligible records
  computes \<open>bc = \<lceil>N / 100\<rceil>\<close> and tries one \<^verbatim>\<open>add\<close> per batch index \<open>0, ..., bc - 1\<close>:
  the queue grows by the jobs of exactly those batches whose \<^verbatim>\<open>add\<close> did not fail, in
  order, so a failed \<^verbatim>\<open>add\<close> loses its own batch only; when no \<^verbatim>\<open>add\<close> fails the
  queue grows by exactly \<open>bc\<close> jobs. The job of batch index \<open>b\<close> carries
  \<open>batchNumber = b + 1\<close>, \<open>totalBatches = bc\<close>, \<open>batchSize = 100\<close> and the delay
  \<open>b * 1000\<close>, and the delays of the jobs added are strictly increasing.
\<close>

theorem scheduler_enqueues_one_job_per_batch:
  assumes "\<not> isProcessing st"
    and "bc = nat \<lceil>real N / real OverdueTasksService_BATCH_SIZE\<rceil>"
    and "st' = handleOverdueTasksScheduled st (Inr N) add_fails clock"
  shows "taskQueue st' = taskQueue st @ map (batch_job clock bc) (filter (\<lambda>b. \<not> add_fails b) [0..<bc])
       \<and> ((\<forall>b < bc. \<not> add_fails b) \<longrightarrow>
            taskQueue st' = taskQueue st @ map (batch_job clock bc) [0..<bc]
          \<and> length (taskQueue st') = length (taskQueue st) + bc)
       \<and> (\<forall>b. batchNumber (q_data (batch_job clock bc b)) = Some (b + 1)
              \<and> totalBatches (q_data (batch_job clock bc b)) = Some bc
              \<and> batchSize (q_data (batch_job clock bc b)) = Some OverdueTasksService_BATCH_SIZE
              \<and> delay (q_opts (batch_job clock bc b)) = b * 1000)
       \<and> sorted_wrt (<) (map (\<lambda>j. delay (q_opts j)) (drop (length (taskQueue st)) (taskQueue st')))"
proof -
  have q: "taskQueue st' = taskQueue st @ map (batch_job clock bc) (filter (\<lambda>b. \<not> add_fails b) [0..<bc])"
  proof (cases "N = 0")
    case True
    then show ?thesis using assms by (simp add: handleOverdueTasksScheduled_def)
  next
    case False
    then show ?thesis using assms
      by (simp add: handleOverdueTasksScheduled_def enqueue_batches_eq Let_def)
  qed
  have all: "(\<forall>b < bc. \<not> add_fails b) \<Longrightarrow> filter (\<lambda>b. \<not> add_fails b) [0..<bc] = [0..<bc]"
    by (simp add: filter_id_conv)
  show ?thesis
    using q all batch_delays_increase [of clock bc "\<lambda>b. \<not> add_fails b"]
    by (auto simp add: batch_job_def)
qed

text \<open>The scenario of the spec: 250 eligible records give three jobs, every \<^verbatim>\<open>add\<close> succeeding.\<close>

theorem scheduler_enqueues_one_job_per_batch_witness:
  "taskQueue (handleOverdueTasksScheduled \<lparr>isProcessing = False, taskQueue = []\<rparr>
                (Inr 250) (\<lambda>b. False) (\<lambda>b. 1700000000000))
     = [batch_job (\<lambda>b. 1700000000000) 3 0,
        batch_job (\<lambda>b. 1700000000000) 3 1,
        batch_job (\<lambda>b. 1700000000000) 3 2]
   \<and> map (\<lambda>j. (totalBatches (q_data j), delay (q_opts j)))
        (taskQueue (handleOverdueTasksScheduled \<lparr>isProcessing = False, taskQueue = []\<rparr>
                      (Inr 250) (\<lambda>b. False) (\<lambda>b. 1700000000000)))
     = [(Some 3, 0), (Some 3, 1000), (Some 3, 2000)]"
proof -
  have h: "\<not> isProcessing \<lparr>isProcessing = False, taskQueue = []\<rparr>"
    by simp
  have bc: "(3::nat) = nat \<lceil>real 250 / real OverdueTasksService_BATCH_SIZE\<rceil>"
    by (simp add: OverdueTasksService_BATCH_SIZE_def)
  have u: "[0..<3] = [0, 1, 2::nat]"
    by (simp add: upt_rec)
  show ?thesis
    using scheduler_enqueues_one_job_per_batch
            [OF h bc refl, of "\<lambda>b. False" "\<lambda>b. 1700000000000"] u
    by (simp add: batch_job_def)
qed

section \<open>Properties of the worker\<close>

declare run_job.simps [simp del]

lemmas worker_defs = process_def dispatch_def tagged_def handleBatchTaskUpdate_def
  handleOverdueTasks_def MAX_RETRY_ATTEMPTS_def TaskProcessorService_BATCH_SIZE_def
  createJobResult_def no_data_def default_opts_def healthy_db_def sample_task_def

text \<open>
  What \<open>process\<close> does with a handler that throws: the error is thrown again for the
  queue while \<open>attemptsMade\<close> is 0 or 1, and from \<open>attemptsMade = 2\<close> on the error is
  swallowed and a result with \<open>success = False\<close> is returned.
\<close>

lemma process_rethrows_then_returns:
  assumes "dispatch H env job
             \<lparr>startTime = now, endTime = None, duration = None, tasksProcessed = 0,
              tasksSuccess = 0, tasksFailed = 0, m_errors = []\<rparr> table now = Some (Inl e, m, table')"
  shows "process H env job table now finish =
           (if attemptsMade job < 2 then (Inl e, table')
            else (Inr (createJobResult False
                         (m\<lparr>m_errors := m_errors m @ [e], endTime := Some finish,
                             duration := Some (finish - startTime m)\<rparr>) (Some e) None finish),
                  table'))"
  using assms by (simp add: process_def MAX_RETRY_ATTEMPTS_def)

text \<open>
  C2. The claim: a job with three attempts whose handler always fails is executed three
  times, then recorded as permanently failed and handed once to the dead-letter sink. On
  the code the job is executed three times, with \<open>attemptsMade\<close> 0, 1 and 2, and the
  first two executions throw; the third returns a result object with \<open>success = False\<close>
  instead of throwing, so the queue completes the job: it never reaches the failed state,
  and \<open>process\<close> has no other output through which it could reach a dead-letter queue.
  The job below is a \<^verbatim>\<open>batch-task-update\<close> without \<^verbatim>\<open>taskIds\<close>, which fails on every
  execution, for any handlers, repository, table and clock.
\<close>

theorem exhausted_job_is_completed_not_failed:
  "run_job (\<lambda>job table. process H env job table now finish) failing_job table
     = (Completed
          \<lparr>success = False, res_duration = Some (finish - now), res_tasksProcessed = 0,
           res_tasksSuccess = 0, res_tasksFailed = 0,
           res_errors = [''Missing or invalid taskIds array''],
           error = Some ''Missing or invalid taskIds array'',
           res_data = None, res_timestamp = finish\<rparr>,
        [0, 1, 2], table)"
  apply (subst run_job.simps)
  apply (simp add: failing_job_def worker_defs)
  apply (subst run_job.simps)
  apply (simp add: failing_job_def worker_defs)
  apply (subst run_job.simps)
  apply (simp add: failing_job_def worker_defs)
  done

lemma touch_none: "map (touch env now []) table = table"
  by (induction table) (simp_all add: touch_def)

lemma settle_all_eq:
  "settle_all env now ts table = (map (item_outcome env) ts, map (touch env now ts) table)"
proof (induction ts arbitrary: table)
  case Nil
  then show ?case by (simp add: touch_none)
next
  case (Cons t ts)
  show ?case
  proof (cases "update_error env (task_id t)")
    case None
    have "map (touch env now ts)
            (map (\<lambda>r. if task_id r = task_id t then r\<lparr>updatedAt := now\<rparr> else r) table)
            = map (touch env now (t # ts)) table"
      using None by (auto simp add: touch_def update_ok_def)
    then show ?thesis
      using None Cons.IH by (simp add: processOverdueTask_def item_outcome_def)
  next
    case (Some msg)
    have "map (touch env now ts) table = map (touch env now (t # ts)) table"
      using Some by (auto simp add: touch_def update_ok_def)
    then show ?thesis
      using Some Cons.IH by (simp add: processOverdueTask_def item_outcome_def)
  qed
qed

lemma tally_eq:
  "tally m (zip (map (item_outcome env) ts) ts)
     = m\<lparr>tasksSuccess := tasksSuccess m + length (filter (update_ok env) ts),
         tasksFailed := tasksFailed m + length (filter (\<lambda>t. \<not> update_ok env t) ts),
         m_errors := m_errors m @ map (item_error env) (filter (\<lambda>t. \<not> update_ok env t) ts)\<rparr>"
proof (induction ts arbitrary: m)
  case Nil
  then show ?case by simp
next
  case (Cons t ts)
  then show ?case
    by (cases "update_error env (task_id t)")
       (simp_all add: item_outcome_def update_ok_def item_error_def)
qed

text \<open>
  C8. The claim: in every batch job a failure on one item does not abort the remaining
  items and does not by itself fail the job. The batch-update handler is written the other
  way: it looks all ids up first and throws for the whole batch when one of them is not
  found. For the ids \<open>a\<close> and \<open>x\<close>, of which only \<open>a\<close> has a row, the first execution
  throws and leaves the row of \<open>a\<close> as it was; on the last attempt the job result has
  \<open>success = False\<close>, no success and both tasks counted as failed.
\<close>

theorem batch_update_one_missing_id_fails_all:
  "process unused_handlers healthy_db partial_job [sample_task ''a'' ''u1'' 100] 1000 1005
     = (Inl ''Tasks not found or access denied: x'', [sample_task ''a'' ''u1'' 100])
   \<and> process unused_handlers healthy_db (partial_job\<lparr>attemptsMade := 2\<rparr>)
         [sample_task ''a'' ''u1'' 100] 1000 1005
     = (Inr \<lparr>success = False, res_duration = Some 5, res_tasksProcessed = 2,
             res_tasksSuccess = 0, res_tasksFailed = 2,
             res_errors = [''Tasks not found or access denied: x'',
                           ''Tasks not found or access denied: x''],
             error = Some ''Tasks not found or access denied: x'',
             res_data = None, res_timestamp = 1005\<rparr>,
        [sample_task ''a'' ''u1'' 100])"
  by (simp add: partial_job_def worker_defs matches_def)

text \<open>
  C8 as amended. A \<^verbatim>\<open>process-overdue-tasks\<close> job whose query succeeds and finds the
  tasks \<open>found\<close> returns a result with \<open>success = True\<close>, whatever the single updates do. Every found task
  is attempted: the table afterwards has the row of each task whose update succeeded
  stamped with \<open>now\<close>, wherever in the batch the failures lie. The result counts
  \<open>length found\<close> tasks processed, the successful updates as successes and the failed
  ones as failures, and lists one error line per failed task, in the order of the batch.
\<close>

theorem batch_items_processed_independently:
  assumes "name job = ''process-overdue-tasks''" and "find_error env = None"
    and "found = find_overdue table now
                   (case batchSize (data job) of None \<Rightarrow> TaskProcessorService_BATCH_SIZE | Some b \<Rightarrow> b)"
  shows "\<exists>r. process H env job table now finish = (Inr r, map (touch env now found) table)
           \<and> success r
           \<and> res_tasksProcessed r = length found
           \<and> res_tasksSuccess r = length (filter (update_ok env) found)
           \<and> res_tasksFailed r = length (filter (\<lambda>t. \<not> update_ok env t) found)
           \<and> res_errors r = map (item_error env) (filter (\<lambda>t. \<not> update_ok env t) found)"
proof (cases "found = []")
  case True
  then show ?thesis using assms
    by (simp add: process_def dispatch_def tagged_def handleOverdueTasks_def createJobResult_def
          Let_def touch_none)
next
  case False
  then show ?thesis using assms
    by (simp add: process_def dispatch_def tagged_def handleOverdueTasks_def createJobResult_def
          Let_def settle_all_eq tally_eq)
qed

theorem batch_items_processed_independently_witness:
  "\<exists>r. process unused_handlers flaky_db overdue_job
          [sample_task ''a'' ''u1'' 100, sample_task ''b'' ''u1'' 200, sample_task ''c'' ''u2'' 300]
          1000 1005
        = (Inr r,
           [(sample_task ''a'' ''u1'' 100)\<lparr>updatedAt := 1000\<rparr>,
            sample_task ''b'' ''u1'' 200,
            (sample_task ''c'' ''u2'' 300)\<lparr>updatedAt := 1000\<rparr>])
      \<and> success r \<and> res_tasksProcessed r = 3 \<and> res_tasksSuccess r = 2 \<and> res_tasksFailed r = 1
      \<and> res_errors r = [''Task b: Error: Failed to process overdue task b: deadlock detected'']"
proof -
  let ?table = "[sample_task ''a'' ''u1'' 100, sample_task ''b'' ''u1'' 200, sample_task ''c'' ''u2'' 300]"
  have h1: "name overdue_job = ''process-overdue-tasks''"
    by (simp add: overdue_job_def)
  have h2: "find_error flaky_db = None"
    by (simp add: flaky_db_def)
  have h3: "?table = find_overdue ?table 1000
              (case batchSize (data overdue_job) of
                 None \<Rightarrow> TaskProcessorService_BATCH_SIZE | Some b \<Rightarrow> b)"
    by (simp add: find_overdue_def overdue_def due_ms_def overdue_job_def no_data_def
          sample_task_def TaskProcessorService_BATCH_SIZE_def)
  have t: "map (touch flaky_db 1000 ?table) ?table
             = [(sample_task ''a'' ''u1'' 100)\<lparr>updatedAt := 1000\<rparr>,
                sample_task ''b'' ''u1'' 200,
                (sample_task ''c'' ''u2'' 300)\<lparr>updatedAt := 1000\<rparr>]"
    by (simp add: touch_def update_ok_def flaky_db_def sample_task_def)
  show ?thesis
    using batch_items_processed_independently [OF h1 h2 h3, of unused_handlers 1005]
    unfolding t
    by (simp add: update_ok_def item_error_def flaky_db_def sample_task_def
          numeral_3_eq_3 numeral_2_eq_2)
qed

lemma batch_update_table_cases:
  "batch_update_table env job table now = table
   \<or> (\<exists>ids u. taskIds (data job) = Some ids \<and> ids \<noteq> [] \<and> data_userId (data job) = Some u
         \<and> length (filter (matches ids (Some u)) table) = length ids
         \<and> batch_update_table env job table now
             = map (\<lambda>r. if matches ids (Some u) r
                         then apply_update (updateData (data job)) now r else r) table)"
proof (cases "data_userId (data job)")
  case None
  have "map (\<lambda>r. if update_matches ids None r then apply_update upd now r else r) table = table"
    for ids upd
    by (induction table) (simp_all add: update_matches_def)
  then have "batch_update_table env job table now = table"
    using None
    by (auto simp add: batch_update_table_def handleBatchTaskUpdate_def Let_def
          split: option.splits)
  then show ?thesis by simp
next
  case (Some u)
  then show ?thesis
    by (auto simp add: batch_update_table_def handleBatchTaskUpdate_def Let_def matches_def
          update_matches_def split: option.splits)
qed

lemma batch_update_table_effective:
  assumes "taskIds (data job) = Some ids" and "ids \<noteq> []" and "data_userId (data job) = Some u"
    and "find_error env = None" and "bulk_update_error env = None"
    and "length (filter (matches ids (Some u)) table) = length ids"
  shows "batch_update_table env job table now
             = map (\<lambda>r. if matches ids (Some u) r
                         then apply_update (updateData (data job)) now r else r) table"
  using assms
  by (auto simp add: batch_update_table_def handleBatchTaskUpdate_def Let_def matches_def
        update_matches_def split: option.splits)

lemma batch_update_table_noop:
  assumes "taskIds (data job) = Some ids"
    and "length (filter (matches ids (data_userId (data job))) table) \<noteq> length ids"
  shows "batch_update_table env job table now = table"
  using assms
  by (auto simp add: batch_update_table_def handleBatchTaskUpdate_def Let_def split: option.splits)

lemma batch_update_table_faulty:
  assumes "\<not> (find_error env = None \<and> bulk_update_error env = None)"
  shows "batch_update_table env job table now = table"
  using assms
  by (auto simp add: batch_update_table_def handleBatchTaskUpdate_def Let_def split: option.splits)

lemma apply_update_twice:
  "apply_update upd t2 (apply_update upd t1 r) = apply_update upd t2 r"
  by (cases upd) (simp_all add: apply_update_def split: option.splits)

lemma task_id_apply_update: "task_id (apply_update upd t r) = task_id r"
  by (cases upd) (simp_all add: apply_update_def)

lemma batch_update_rerun:
  "batch_update_table env2 job (batch_update_table env1 job table t1) t2
     = batch_update_table env1 job table t1
   \<or> batch_update_table env2 job (batch_update_table env1 job table t1) t2
     = batch_update_table env2 job table t2"
proof -
  let ?T1 = "batch_update_table env1 job table t1"
  let ?upd = "updateData (data job)"
  consider (noop1) "?T1 = table"
    | (eff1) ids u where "taskIds (data job) = Some ids" "ids \<noteq> []"
        "data_userId (data job) = Some u"
        "length (filter (matches ids (Some u)) table) = length ids"
        "?T1 = map (\<lambda>r. if matches ids (Some u) r then apply_update ?upd t1 r else r) table"
    using batch_update_table_cases [of env1 job table t1] by blast
  then show ?thesis
  proof cases
    case noop1
    then show ?thesis by simp
  next
    case eff1
    let ?P = "matches ids (Some u)"
    let ?f1 = "\<lambda>r. if ?P r then apply_update ?upd t1 r else r"
    show ?thesis
    proof (cases "find_error env2 = None \<and> bulk_update_error env2 = None")
      case False
      then have "batch_update_table env2 job ?T1 t2 = ?T1"
        by (rule batch_update_table_faulty)
      then show ?thesis by simp
    next
      case ok2: True
      show ?thesis
      proof (cases "\<forall>r \<in> set table. ?P r \<longrightarrow> ?P (apply_update ?upd t1 r)")
        case True
        have same: "\<And>r. r \<in> set table \<Longrightarrow> ?P (?f1 r) = ?P r"
          using True by auto
        have "filter ?P (map ?f1 table) = map ?f1 (filter ?P table)"
          using same by (induction table) auto
        then have len: "length (filter ?P ?T1) = length ids"
          using eff1(4,5) by simp
        have "batch_update_table env2 job ?T1 t2
                = map (\<lambda>r. if ?P r then apply_update ?upd t2 r else r) ?T1"
          using batch_update_table_effective [OF eff1(1,2,3) _ _ len] ok2 by simp
        also have "\<dots> = map (\<lambda>r. if ?P r then apply_update ?upd t2 r else r) table"
          unfolding eff1(5) using True by (auto simp add: apply_update_twice)
        also have "\<dots> = batch_update_table env2 job table t2"
          using batch_update_table_effective [OF eff1(1,2,3) _ _ eff1(4)] ok2 by simp
        finally show ?thesis by simp
      next
        case False
        then obtain r0 where r0: "r0 \<in> set table" "?P r0" "\<not> ?P (apply_update ?upd t1 r0)"
          by blast
        then obtain x where ux: "?upd = Some x"
            "upd_userId x \<noteq> None" "upd_userId x \<noteq> Some u"
          by (cases ?upd)
             (auto simp add: matches_def apply_update_def split: option.splits)
        have none: "\<And>r. \<not> ?P (apply_update ?upd t1 r)"
          using ux by (auto simp add: matches_def apply_update_def split: option.splits)
        have "filter ?P (map ?f1 table) = []"
          using none by (induction table) auto
        then have "length (filter (matches ids (data_userId (data job))) ?T1) \<noteq> length ids"
          using eff1(2,3,5) by simp
        then have "batch_update_table env2 job ?T1 t2 = ?T1"
          using batch_update_table_noop [OF eff1(1)] by simp
        then show ?thesis by simp
      qed
    qed
  qed
qed

lemma processOverdueTask_rerun:
  "snd (processOverdueTask env t2 task (snd (processOverdueTask env t1 task table)))
     = snd (processOverdueTask env t2 task table)"
  by (cases "update_error env (task_id task)") (auto simp add: processOverdueTask_def)

text \<open>
  C9. The claim: executing the batch-update handler twice leaves the record in the same
  final state as executing it once. The handler writes \<^verbatim>\<open>updatedAt: new Date()\<close> with
  the other columns, so a second execution at a later clock reading moves
  \<open>updatedAt\<close>: after executions at 1000 and 2000 the row carries 2000, after the first
  execution alone it carries 1000.
\<close>

theorem second_run_moves_updatedAt:
  "map updatedAt
     (batch_update_table healthy_db complete_job
        (batch_update_table healthy_db complete_job [sample_task ''a'' ''u1'' 100] 1000) 2000)
     = [2000]
   \<and> map updatedAt (batch_update_table healthy_db complete_job [sample_task ''a'' ''u1'' 100] 1000)
     = [1000]
   \<and> batch_update_table healthy_db complete_job
        (batch_update_table healthy_db complete_job [sample_task ''a'' ''u1'' 100] 1000) 2000
     \<noteq> batch_update_table healthy_db complete_job [sample_task ''a'' ''u1'' 100] 1000"
  by (simp add: batch_update_table_def handleBatchTaskUpdate_def matches_def update_matches_def
        apply_update_def complete_job_def no_data_def healthy_db_def sample_task_def)

text \<open>
  C9 as amended. Two executions of the handler for the same payload, at the clock
  readings \<open>t1\<close> and then \<open>t2\<close> and whatever the repository does in each, leave the table
  in a state that a single execution leaves: the state after the first execution alone,
  or the state that one execution at \<open>t2\<close> gives from the original table. When both
  executions read the same clock and meet the same repository, the second changes
  nothing. The same holds for the single update of \<open>processOverdueTask\<close>.
\<close>

theorem batch_update_rerun_is_single_run:
  "(batch_update_table env2 job (batch_update_table env1 job table t1) t2
      = batch_update_table env1 job table t1
    \<or> batch_update_table env2 job (batch_update_table env1 job table t1) t2
      = batch_update_table env2 job table t2)
   \<and> batch_update_table env1 job (batch_update_table env1 job table t1) t1
      = batch_update_table env1 job table t1
   \<and> snd (processOverdueTask env1 t2 task (snd (processOverdueTask env1 t1 task table)))
      = snd (processOverdueTask env1 t2 task table)"
  using batch_update_rerun [of env2 job env1 table t1 t2]
        batch_update_rerun [of env1 job env1 table t1 t1]
        processOverdueTask_rerun [of env1 t2 task t1 table]
  by auto

end
